theory Spec2Isabelle
  imports Complex_Main "HOL-Library.Word"
begin

section \<open>Python values, exceptions and the log\<close>

text \<open>
  The values that travel through \<open>main.py\<close> are what \<open>response.json()\<close> returns, the
  header dictionaries of the decoders and the \<open>settings\<close>/\<open>colors\<close> dictionaries. They are
  modelled by one datatype. A dictionary is an association list read with \<open>map_of\<close>.
  Python floats are not part of the model: numbers are Python's unbounded integers.
\<close>

datatype pyval =
    PNone
  | PBool bool
  | PInt int
  | PStr string
  | PList "pyval list"
  | PDict "(string \<times> pyval) list"

type_synonym pydict = "(string \<times> pyval) list"

text \<open>
  Exception classes. All of them derive from \<open>Exception\<close>; \<open>JSONDecodeError\<close> is the one of
  \<open>requests.exceptions\<close>, which derives from \<open>RequestException\<close>, as \<open>HTTPError\<close> does.
  Signals that are not \<open>Exception\<close>s (\<open>KeyboardInterrupt\<close>, \<open>SystemExit\<close>) are outside the model.
\<close>

datatype kind =
    JSONDecodeError
  | RequestException
  | HTTPError
  | NotSupportedError
  | ValueError
  | KeyError
  | TypeError
  | IndexError
  | AttributeError
  | ZeroDivisionError
  | OtherError string

text \<open>An f-string is kept as its parts: literal text and formatted values.\<close>

datatype part = Lit string | Val pyval

text \<open>An exception: its class, its message, and the exception it was raised \<open>from\<close>.\<close>

datatype exn = Exn (exn_kind: kind) (exn_msg: "part list") (exn_cause: "exn option")

definition is_JSONDecodeError :: "exn \<Rightarrow> bool" where
  "is_JSONDecodeError e = (exn_kind e = JSONDecodeError)"

definition is_RequestException :: "exn \<Rightarrow> bool" where
  "is_RequestException e = (exn_kind e = RequestException \<or> exn_kind e = HTTPError
     \<or> exn_kind e = JSONDecodeError)"

datatype level = DEBUG | ERROR

datatype lpart = Text string | Shown pyval | Dumps pyval | StrExn exn | Status int

type_synonym logline = "level \<times> lpart list"

text \<open>
  A computation of \<open>main.py\<close>: the lines it logged, and either the exception it raised
  (\<open>Inl\<close>) or the value it returned (\<open>Inr\<close>).
\<close>

type_synonym 'a res = "logline list \<times> (exn + 'a)"

definition ret :: "'a \<Rightarrow> 'a res" where
  "ret x = ([], Inr x)"

definition raise :: "exn \<Rightarrow> 'a res" where
  "raise e = ([], Inl e)"

definition lift :: "exn + 'a \<Rightarrow> 'a res" where
  "lift r = ([], r)"

definition logmsg :: "level \<Rightarrow> lpart list \<Rightarrow> unit res" where
  "logmsg lvl msg = ([(lvl, msg)], Inr ())"

definition bind_res :: "'a res \<Rightarrow> ('a \<Rightarrow> 'b res) \<Rightarrow> 'b res" where
  "bind_res m f =
     (case m of
        (l, Inl e) \<Rightarrow> (l, Inl e)
      | (l, Inr x) \<Rightarrow> (case f x of (l', r) \<Rightarrow> (l @ l', r)))"

text \<open>\<open>try: m except C as e: h e\<close>, where \<open>catches\<close> says which exceptions \<open>C\<close> matches.\<close>

definition try_except :: "'a res \<Rightarrow> (exn \<Rightarrow> bool) \<Rightarrow> (exn \<Rightarrow> 'a res) \<Rightarrow> 'a res" where
  "try_except m catches h =
     (case m of
        (l, Inl e) \<Rightarrow>
          (if catches e then (case h e of (l', r) \<Rightarrow> (l @ l', r)) else (l, Inl e))
      | (l, Inr x) \<Rightarrow> (l, Inr x))"

definition raised :: "'a res \<Rightarrow> exn option" where
  "raised m = (case snd m of Inl e \<Rightarrow> Some e | Inr _ \<Rightarrow> None)"

definition returned :: "'a res \<Rightarrow> 'a option" where
  "returned m = (case snd m of Inl _ \<Rightarrow> None | Inr x \<Rightarrow> Some x)"

definition logged :: "'a res \<Rightarrow> logline list" where
  "logged m = fst m"

subsection \<open>The operators of Python that the code applies to these values\<close>

fun substr :: "string \<Rightarrow> string \<Rightarrow> bool" where
  "substr s [] = (s = [])"
| "substr s (c # t) = (take (length s) (c # t) = s \<or> substr s t)"

text \<open>\<open>key in v\<close> for a string \<open>key\<close>.\<close>

fun py_contains :: "string \<Rightarrow> pyval \<Rightarrow> exn + bool" where
  "py_contains key (PDict kvs) = Inr (map_of kvs key \<noteq> None)"
| "py_contains key (PList xs) = Inr (PStr key \<in> set xs)"
| "py_contains key (PStr t) = Inr (substr key t)"
| "py_contains key _ =
     Inl (Exn TypeError [Lit ''argument is not iterable''] None)"

text \<open>\<open>v[key]\<close> for a string \<open>key\<close>.\<close>

fun py_getitem :: "pyval \<Rightarrow> string \<Rightarrow> exn + pyval" where
  "py_getitem (PDict kvs) key =
     (case map_of kvs key of
        None \<Rightarrow> Inl (Exn KeyError [Val (PStr key)] None)
      | Some v \<Rightarrow> Inr v)"
| "py_getitem _ key =
     Inl (Exn TypeError [Lit ''indices must be integers''] None)"

text \<open>\<open>d[key]\<close> and \<open>d.get(key, default)\<close> on a dictionary.\<close>

definition dict_getitem :: "pydict \<Rightarrow> string \<Rightarrow> exn + pyval" where
  "dict_getitem d key =
     (case map_of d key of
        None \<Rightarrow> Inl (Exn KeyError [Val (PStr key)] None)
      | Some v \<Rightarrow> Inr v)"

definition dict_get :: "pydict \<Rightarrow> string \<Rightarrow> pyval \<Rightarrow> pyval" where
  "dict_get d key dflt = (case map_of d key of None \<Rightarrow> dflt | Some v \<Rightarrow> v)"

fun is_list :: "pyval \<Rightarrow> bool" where
  "is_list (PList _) = True"
| "is_list _ = False"

text \<open>Truthiness, as \<open>if v:\<close> and \<open>not v\<close> read it.\<close>

fun truthy :: "pyval \<Rightarrow> bool" where
  "truthy PNone = False"
| "truthy (PBool b) = b"
| "truthy (PInt i) = (i \<noteq> 0)"
| "truthy (PStr s) = (s \<noteq> [])"
| "truthy (PList xs) = (xs \<noteq> [])"
| "truthy (PDict kvs) = (kvs \<noteq> [])"

text \<open>\<open>v == n\<close> for an integer literal \<open>n\<close>: a \<open>bool\<close> compares as 0 or 1.\<close>

fun eq_int :: "pyval \<Rightarrow> int \<Rightarrow> bool" where
  "eq_int (PInt i) n = (i = n)"
| "eq_int (PBool b) n = ((if b then 1 else 0) = n)"
| "eq_int _ n = False"

text \<open>\<open>v == [n]\<close> for an integer literal \<open>n\<close>.\<close>

fun eq_int_singleton :: "pyval \<Rightarrow> int \<Rightarrow> bool" where
  "eq_int_singleton (PList [x]) n = eq_int x n"
| "eq_int_singleton _ n = False"

subsection \<open>Responses\<close>

text \<open>
  A \<open>requests\<close> response: what \<open>.json()\<close> returns or raises, the bytes of \<open>.content\<close>,
  \<open>.status_code\<close>, and what \<open>.raise_for_status()\<close> raises, if anything.
\<close>

record response =
  json :: "exn + pyval"
  content :: "8 word list"
  status_code :: int
  raise_for_status :: "exn option"

definition hexdigit :: "nat \<Rightarrow> char" where
  "hexdigit n = ''0123456789abcdef'' ! (n mod 16)"

definition hex_byte :: "8 word \<Rightarrow> string" where
  "hex_byte b = [hexdigit (unat b div 16), hexdigit (unat b mod 16)]"

text \<open>\<open>bytes.hex()\<close>.\<close>

definition hex :: "8 word list \<Rightarrow> string" where
  "hex bs = concat (map hex_byte bs)"

section \<open>The decoders that main.py imports\<close>

text \<open>
  The modules \<open>common\<close>, \<open>v0\<close>, \<open>v1\<close> and \<open>custom0\<close> are not part of the verified file; their
  functions are parameters, and every theorem holds whatever they compute or raise.
\<close>

record decoders =
  decode_custom0 :: "pyval \<Rightarrow> exn + (pydict \<times> 8 word list)"
  decode_header :: "string \<Rightarrow> exn + pydict"
  decode_v0 :: "string \<Rightarrow> pydict \<Rightarrow> exn + 8 word list"
  decode_v1 :: "string \<Rightarrow> pydict \<Rightarrow> exn + 8 word list"
  decode_path_custom0 :: "pyval \<Rightarrow> pydict \<Rightarrow> exn + int list list"
  decode_path_v1 :: "string \<Rightarrow> exn + int list list"
  format_path_point :: "pydict \<Rightarrow> bool \<Rightarrow> exn + int \<times> int"
  map_to_image :: "pyval list \<Rightarrow> pyval \<Rightarrow> pyval \<Rightarrow> pyval \<Rightarrow> exn + int \<times> int"

section \<open>parse_map\<close>

text \<open>The body of the outer \<open>try\<close> of \<open>parse_map\<close> (lines 32 to 44).\<close>

definition parse_map_json :: "decoders \<Rightarrow> response \<Rightarrow> (pydict \<times> 8 word list) res" where
  "parse_map_json D response =
     bind_res (lift (json response)) (\<lambda>data.
     bind_res (logmsg DEBUG [Text ''Raw JSON response: '', Dumps data]) (\<lambda>_.
     bind_res (lift (py_contains ''result'' data)) (\<lambda>has_result.
     bind_res (if has_result
               then bind_res (lift (py_getitem data ''result'')) (\<lambda>r. ret (is_list r))
               else ret False) (\<lambda>standard.
     if standard then lift (decode_custom0 D data)
     else
       bind_res (lift (py_contains ''map_data'' data)) (\<lambda>has_map_data.
       if has_map_data
       then bind_res (lift (py_getitem data ''map_data'')) (\<lambda>w. lift (decode_custom0 D w))
       else raise (Exn JSONDecodeError [Lit ''No recognized JSON format''] None))))))"

text \<open>The body of the inner \<open>try\<close> (lines 49 to 56).\<close>

definition parse_map_binary_body :: "decoders \<Rightarrow> response \<Rightarrow> (pydict \<times> 8 word list) res" where
  "parse_map_binary_body D response =
     (let data = hex (content response) in
      bind_res (lift (decode_header D (take 48 data))) (\<lambda>header.
      bind_res (lift (dict_getitem header ''version'')) (\<lambda>version.
      if eq_int_singleton version 0
      then bind_res (lift (decode_v0 D data header)) (\<lambda>mapDataArr. ret (header, mapDataArr))
      else if eq_int_singleton version 1
      then bind_res (lift (decode_v1 D data header)) (\<lambda>mapDataArr. ret (header, mapDataArr))
      else raise (Exn NotSupportedError
                    [Lit ''Map version '', Val version, Lit '' is not supported.''] None))))"

text \<open>The handler \<open>except JSONDecodeError\<close> (lines 47 to 59).\<close>

definition parse_map_binary :: "decoders \<Rightarrow> response \<Rightarrow> (pydict \<times> 8 word list) res" where
  "parse_map_binary D response =
     bind_res (logmsg DEBUG [Text ''Falling back to binary parsing'']) (\<lambda>_.
     try_except (parse_map_binary_body D response) (\<lambda>e. True) (\<lambda>e.
       bind_res (logmsg ERROR [Text ''Binary parsing failed: '', StrExn e]) (\<lambda>_.
       raise (Exn ValueError
                [Lit ''Failed to parse map data in any supported format''] (Some e)))))"

definition parse_map :: "decoders \<Rightarrow> response \<Rightarrow> (pydict \<times> 8 word list) res" where
  "parse_map D response =
     try_except (parse_map_json D response) is_JSONDecodeError
       (\<lambda>e. parse_map_binary D response)"

section \<open>download\<close>

text \<open>
  The module \<open>tuya\<close> (the link provider) and the \<open>requests\<close> library are parameters.
  The timeout is in seconds.
\<close>

record cloud =
  get_download_link :: "string \<Rightarrow> string \<Rightarrow> string \<Rightarrow> string \<Rightarrow> exn + pyval"
  requests_get :: "pyval \<Rightarrow> nat \<Rightarrow> exn + response"

definition download :: "cloud \<Rightarrow> pyval \<Rightarrow> nat \<Rightarrow> response res" where
  "download N url timeout =
     try_except
       (bind_res (lift (requests_get N url timeout)) (\<lambda>response.
        case raise_for_status response of
          Some e \<Rightarrow> raise e
        | None \<Rightarrow> ret response))
       is_RequestException
       (\<lambda>e. bind_res (logmsg ERROR [Text ''Download failed for URL '', Shown url, Text '': '', StrExn e])
               (\<lambda>_. raise e))"

section \<open>parse_path\<close>

text \<open>
  Lines 65 to 74: the decoded path, or \<open>None\<close> where the function returns \<open>[]\<close> early.
\<close>

definition parse_path_data :: "decoders \<Rightarrow> response \<Rightarrow> pydict \<Rightarrow> (int list list option) res" where
  "parse_path_data D response header =
     try_except
       (bind_res (lift (json response)) (\<lambda>data.
        bind_res (lift (decode_path_custom0 D data header)) (\<lambda>path_data.
        ret (Some path_data))))
       is_JSONDecodeError
       (\<lambda>_. try_except
          (bind_res (lift (decode_path_v1 D (hex (content response)))) (\<lambda>path_data.
           ret (Some path_data)))
          (\<lambda>e. True)
          (\<lambda>e. bind_res (logmsg ERROR [Text ''Path parsing failed: '', StrExn e]) (\<lambda>_.
                ret None)))"

definition parse_path :: "decoders \<Rightarrow> response \<Rightarrow> int \<Rightarrow> pydict \<Rightarrow> (int list) res" where
  "parse_path D response scale header =
     bind_res (parse_path_data D response header) (\<lambda>r.
       case r of
         None \<Rightarrow> ret []
       | Some path_data \<Rightarrow> ret (concat (map (map (\<lambda>i. i * scale)) path_data)))"

section \<open>The imaging libraries\<close>

datatype flip_method = FLIP_LEFT_RIGHT | FLIP_TOP_BOTTOM

text \<open>
  Pillow, the array builders of the decoder modules and Python's \<open>str\<close> are parameters.
  An operation that returns a new image gives the image or the exception; a drawing
  operation works in place, so it gives the image as it left it, and the exception if it
  raised. \<open>size_of\<close> is \<open>image.size\<close>, \<open>rotate_img\<close> is \<open>image.rotate(angle)\<close>,
  \<open>transpose_img\<close> is \<open>image.transpose(method)\<close>,
  \<open>resize_box\<close> is \<open>image.resize(size, resample=Image.BOX)\<close>,
  \<open>Draw\<close> is \<open>ImageDraw.Draw(image, 'RGBA')\<close>, \<open>line\<close> is
  \<open>draw.line(xy, fill=fill, width=width)\<close> and \<open>ellipse\<close> is
  \<open>draw.ellipse(box, outline=outline, fill=fill, width=width)\<close>.
\<close>

record ('img, 'arr) imaging =
  str_of :: "pyval \<Rightarrow> string"
  to_array_custom0 :: "nat list \<Rightarrow> pyval \<Rightarrow> pyval \<Rightarrow> pydict \<Rightarrow> exn + 'arr"
  to_array_v0 :: "nat list \<Rightarrow> pyval \<Rightarrow> pyval \<Rightarrow> pydict \<Rightarrow> exn + 'arr"
  to_array_v1 :: "nat list \<Rightarrow> pyval \<Rightarrow> pyval \<Rightarrow> pyval \<Rightarrow> pydict \<Rightarrow> exn + 'arr"
  fromarray :: "'arr \<Rightarrow> exn + 'img"
  size_of :: "'img \<Rightarrow> nat \<times> nat"
  resize_box :: "'img \<Rightarrow> nat \<times> nat \<Rightarrow> exn + 'img"
  rotate_img :: "'img \<Rightarrow> pyval \<Rightarrow> exn + 'img"
  transpose_img :: "'img \<Rightarrow> flip_method \<Rightarrow> exn + 'img"
  Draw :: "'img \<Rightarrow> exn option"
  line :: "'img \<Rightarrow> int list \<Rightarrow> pyval list \<Rightarrow> nat \<Rightarrow> 'img \<times> exn option"
  ellipse :: "'img \<Rightarrow> (int \<times> int) \<times> (int \<times> int) \<Rightarrow> pyval list \<Rightarrow> pyval list \<Rightarrow> nat
                \<Rightarrow> 'img \<times> exn option"

section \<open>flip\<close>

text \<open>
  Inside a \<open>try\<close> the variable \<open>image\<close> is rebound step by step. A step gives the binding
  of \<open>image\<close> after it and the exception it raised, if any; an assignment whose right-hand
  side raises leaves the binding as it was.
\<close>

definition assign :: "'img \<Rightarrow> exn + 'img \<Rightarrow> 'img \<times> exn option" where
  "assign img r = (case r of Inl e \<Rightarrow> (img, Some e) | Inr img' \<Rightarrow> (img', None))"

definition and_then :: "'img \<times> exn option \<Rightarrow> ('img \<Rightarrow> 'img \<times> exn option) \<Rightarrow> 'img \<times> exn option" where
  "and_then s f = (case s of (img, Some e) \<Rightarrow> (img, Some e) | (img, None) \<Rightarrow> f img)"

text \<open>\<open>rotate in [90, 180, -90, 270]\<close>.\<close>

definition rotate_recognized :: "pyval \<Rightarrow> bool" where
  "rotate_recognized r = list_ex (eq_int r) [90, 180, - 90, 270]"

text \<open>The body of the \<open>try\<close> of \<open>flip\<close> (lines 86 to 95).\<close>

definition flip_body :: "('img, 'arr) imaging \<Rightarrow> 'img \<Rightarrow> pydict \<Rightarrow> 'img \<times> exn option" where
  "flip_body L img settings =
     (let rotate_v = dict_get settings ''rotate'' (PInt 0);
          flip_vertical = dict_get settings ''flip_vertical'' (PBool False);
          flip_horizontal = dict_get settings ''flip_horizontal'' (PBool False)
      in
      and_then
        (and_then
          (if rotate_recognized rotate_v then assign img (rotate_img L img rotate_v)
           else (img, None))
          (\<lambda>img. if truthy flip_vertical then assign img (transpose_img L img FLIP_LEFT_RIGHT)
                   else (img, None)))
        (\<lambda>img. if truthy flip_horizontal then assign img (transpose_img L img FLIP_TOP_BOTTOM)
                 else (img, None)))"

definition flip :: "('img, 'arr) imaging \<Rightarrow> pydict \<Rightarrow> 'img \<Rightarrow> pydict
                     \<Rightarrow> logline list \<times> pydict \<times> 'img" where
  "flip L headers img settings =
     (case flip_body L img settings of
        (img', None) \<Rightarrow> ([], headers, img')
      | (img', Some e) \<Rightarrow>
          ([(ERROR, [Text ''Image transformation failed: '', StrExn e])], headers, img'))"

section \<open>render_layout\<close>

definition render_layout :: "('img, 'arr) imaging \<Rightarrow> 8 word list \<Rightarrow> pydict \<Rightarrow> pydict \<Rightarrow> 'img res" where
  "render_layout L raw_map header colors =
     try_except
       (bind_res (lift (dict_getitem header ''width'')) (\<lambda>width.
        bind_res (lift (dict_getitem header ''height'')) (\<lambda>height.
        bind_res (lift (dict_getitem header ''version'')) (\<lambda>version.
        bind_res (case version of
                    PList [] \<Rightarrow> raise (Exn IndexError [Lit ''list index out of range''] None)
                  | PList (v # _) \<Rightarrow> ret (PStr (str_of L v))
                  | _ \<Rightarrow> ret version) (\<lambda>protoVer.
        let pixellist = map unat raw_map in
        bind_res
          (if protoVer = PStr ''custom0''
           then lift (to_array_custom0 L pixellist width height colors)
           else if protoVer = PStr ''0''
           then lift (to_array_v0 L pixellist width height colors)
           else if protoVer = PStr ''1''
           then lift (to_array_v1 L pixellist width height
                        (dict_get header ''roominfo'' (PList [])) colors)
           else raise (Exn NotSupportedError
                         [Lit ''Protocol version '', Val protoVer, Lit '' not supported''] None))
          (\<lambda>array. lift (fromarray L array)))))))
       (\<lambda>e. True)
       (\<lambda>e. bind_res (logmsg ERROR [Text ''Rendering failed: '', StrExn e]) (\<lambda>_. raise e))"

section \<open>get_map\<close>

definition bind_exn :: "exn + 'a \<Rightarrow> ('a \<Rightarrow> exn + 'b) \<Rightarrow> exn + 'b" where
  "bind_exn r f = (case r of Inl e \<Rightarrow> Inl e | Inr x \<Rightarrow> f x)"

text \<open>
  Lines 150 to 161. The argument \<open>urls\<close> is \<open>None\<close> when the caller gave none (or an empty
  one), and otherwise the list under its key \<open>links\<close>; the entry \<open>time\<close> that the code
  stores beside it is never read.
\<close>

definition resolve_links :: "cloud \<Rightarrow> string \<Rightarrow> string \<Rightarrow> string \<Rightarrow> string
                              \<Rightarrow> pyval list option \<Rightarrow> (pyval list) res" where
  "resolve_links N server client_id secret_key device_id urls =
     (case urls of
        Some links \<Rightarrow> ret links
      | None \<Rightarrow>
          bind_res (lift (get_download_link N server client_id secret_key device_id)) (\<lambda>link.
          bind_res (logmsg DEBUG [Text ''Download link response: '', Shown link]) (\<lambda>_.
          case link of
            PDict kvs \<Rightarrow>
              (case dict_get kvs ''result'' PNone of
                 PList links \<Rightarrow>
                   if links \<noteq> [] then ret links
                   else bind_res (logmsg ERROR [Text ''Invalid link response structure''])
                          (\<lambda>_. raise (Exn ValueError [Lit ''Invalid API response format''] None))
               | _ \<Rightarrow>
                   bind_res (logmsg ERROR [Text ''Invalid link response structure''])
                     (\<lambda>_. raise (Exn ValueError [Lit ''Invalid API response format''] None)))
          | _ \<Rightarrow> raise (Exn AttributeError [Lit ''object has no attribute get''] None))))"

text \<open>
  \<open>next((item["map_url"] for item in links if "map_url" in item), None)\<close>: lines 164 to 167
  on the whole list, lines 182 to 185 on \<open>links[1:]\<close>.
\<close>

fun next_map_url :: "pyval list \<Rightarrow> exn + pyval" where
  "next_map_url [] = Inr PNone"
| "next_map_url (item # items) =
     (case py_contains ''map_url'' item of
        Inl e \<Rightarrow> Inl e
      | Inr True \<Rightarrow> py_getitem item ''map_url''
      | Inr False \<Rightarrow> next_map_url items)"

definition map_link_of :: "pyval list \<Rightarrow> exn + pyval" where
  "map_link_of links = next_map_url links"

definition path_link_of :: "pyval list \<Rightarrow> exn + pyval" where
  "path_link_of links = next_map_url (drop 1 links)"

text \<open>
  \<open>int(1080/w)\<close> for the width \<open>w\<close> of an image: the quotient is a float, and for
  \<open>0 < w\<close> its truncation is the integer quotient; \<open>w = 0\<close> raises.
\<close>

definition scale_for :: "nat \<Rightarrow> exn + nat" where
  "scale_for w =
     (if w = 0 then Inl (Exn ZeroDivisionError [Lit ''division by zero''] None)
      else Inr (1080 div w))"

text \<open>\<open>tuple(v)\<close>.\<close>

fun py_tuple :: "pyval \<Rightarrow> exn + pyval list" where
  "py_tuple (PList xs) = Inr xs"
| "py_tuple (PStr s) = Inr (map (\<lambda>c. PStr [c]) s)"
| "py_tuple (PDict kvs) = Inr (map PStr (remdups (map fst kvs)))"
| "py_tuple _ = Inl (Exn TypeError [Lit ''object is not iterable''] None)"

text \<open>Lines 207 to 216: the dock position in the coordinates of the unscaled image.\<close>

definition dock_point :: "decoders \<Rightarrow> pydict \<Rightarrow> exn + int \<times> int" where
  "dock_point D header =
     bind_exn (dict_getitem header ''pileX'') (\<lambda>x.
     bind_exn (dict_getitem header ''pileY'') (\<lambda>y.
     bind_exn (dict_getitem header ''version'') (\<lambda>version.
     if eq_int_singleton version 0 \<or> eq_int_singleton version 1
     then format_path_point D [(''x'', x), (''y'', y)] False
     else
       bind_exn (dict_getitem header ''mapResolution'') (\<lambda>resolution.
       bind_exn (dict_getitem header ''x_min'') (\<lambda>x_min.
       bind_exn (dict_getitem header ''y_min'') (\<lambda>y_min.
       map_to_image D [x, y] resolution x_min y_min))))))"

text \<open>Lines 217 to 223: the box of the marker and the call that draws it.\<close>

definition dock_box :: "int \<times> int \<Rightarrow> int \<Rightarrow> (int \<times> int) \<times> (int \<times> int)" where
  "dock_box point scale =
     (let x = fst point * scale; y = snd point * scale
      in ((x - 10, y - 10), (x + 10, y + 10)))"

definition draw_dock :: "('img, 'arr) imaging \<Rightarrow> decoders \<Rightarrow> 'img \<Rightarrow> int \<Rightarrow> pydict
                          \<Rightarrow> 'img \<times> exn option" where
  "draw_dock L D img scale header =
     (case dock_point D header of
        Inl e \<Rightarrow> (img, Some e)
      | Inr point \<Rightarrow>
          ellipse L img (dock_box point scale)
            [PInt 255, PInt 255, PInt 255] [PInt 0, PInt 255, PInt 0] 2)"

text \<open>Lines 197 to 223: what is drawn once the path has been parsed.\<close>

definition draw_path :: "('img, 'arr) imaging \<Rightarrow> decoders \<Rightarrow> 'img \<Rightarrow> int list \<Rightarrow> int \<Rightarrow> pydict
                          \<Rightarrow> pydict \<Rightarrow> 'img \<times> exn option" where
  "draw_path L D img path scale header colors =
     (if path = [] then (img, None)
      else
        (case Draw L img of
           Some e \<Rightarrow> (img, Some e)
         | None \<Rightarrow>
             (case py_tuple (dict_get colors ''path_color'' (PList [PInt 0, PInt 255, PInt 0])) of
                Inl e \<Rightarrow> (img, Some e)
              | Inr fill \<Rightarrow>
                  and_then (line L img path fill 2) (\<lambda>img.
                    if map_of header ''pileX'' \<noteq> None \<and> map_of header ''pileY'' \<noteq> None
                    then draw_dock L D img scale header
                    else (img, None)))))"

text \<open>
  The body of the \<open>try\<close> of the path branch (lines 189 to 223): the log, the binding of
  \<open>image\<close> when the body ends, and the exception that ended it, if any.
\<close>

definition path_try :: "('img, 'arr) imaging \<Rightarrow> decoders \<Rightarrow> cloud \<Rightarrow> 'img \<Rightarrow> pydict \<Rightarrow> pydict
                         \<Rightarrow> pyval \<Rightarrow> logline list \<times> 'img \<times> exn option" where
  "path_try L D N img header colors path_link =
     (case download N path_link 10 of
        (l1, Inl e) \<Rightarrow> (l1, img, Some e)
      | (l1, Inr path_response) \<Rightarrow>
          (case scale_for (fst (size_of L img)) of
             Inl e \<Rightarrow> (l1, img, Some e)
           | Inr scale \<Rightarrow>
               (case resize_box L img
                       (fst (size_of L img) * scale, snd (size_of L img) * scale) of
                  Inl e \<Rightarrow> (l1, img, Some e)
                | Inr img2 \<Rightarrow>
                    (case parse_path D path_response (int scale) header of
                       (l2, Inl e) \<Rightarrow> (l1 @ l2, img2, Some e)
                     | (l2, Inr path) \<Rightarrow>
                         (case draw_path L D img2 path (int scale) header colors of
                            (img3, r) \<Rightarrow> (l1 @ l2, img3, r))))))"

text \<open>Lines 188 to 225: the \<open>try\<close> with its handler, which logs and goes on.\<close>

definition path_branch :: "('img, 'arr) imaging \<Rightarrow> decoders \<Rightarrow> cloud \<Rightarrow> 'img \<Rightarrow> pydict \<Rightarrow> pydict
                            \<Rightarrow> pyval \<Rightarrow> logline list \<times> 'img" where
  "path_branch L D N img header colors path_link =
     (case path_try L D N img header colors path_link of
        (l, img', None) \<Rightarrow> (l, img')
      | (l, img', Some e) \<Rightarrow>
          (l @ [(ERROR, [Text ''Path rendering failed: '', StrExn e])], img'))"

text \<open>Lines 181 to 225.\<close>

definition path_stage :: "('img, 'arr) imaging \<Rightarrow> decoders \<Rightarrow> cloud \<Rightarrow> 'img \<Rightarrow> pydict \<Rightarrow> pydict
                           \<Rightarrow> pydict \<Rightarrow> pyval list \<Rightarrow> 'img res" where
  "path_stage L D N img header colors settings links =
     (if truthy (dict_get settings ''path_enabled'' (PBool False))
      then
        bind_res (lift (path_link_of links)) (\<lambda>path_link.
          if truthy path_link
          then (case path_branch L D N img header colors path_link of (l, img') \<Rightarrow> (l, Inr img'))
          else ret img)
      else ret img)"

text \<open>Lines 150 to 178: the links, the map blob, its header and grid, and the raster image.\<close>

definition fetch_and_render :: "('img, 'arr) imaging \<Rightarrow> decoders \<Rightarrow> cloud
     \<Rightarrow> string \<Rightarrow> string \<Rightarrow> string \<Rightarrow> string \<Rightarrow> pydict \<Rightarrow> pyval list option
     \<Rightarrow> (pyval list \<times> pydict \<times> 'img) res" where
  "fetch_and_render L D N server client_id secret_key device_id colors urls =
     bind_res (resolve_links N server client_id secret_key device_id urls) (\<lambda>links.
     bind_res (lift (map_link_of links)) (\<lambda>map_link.
     bind_res (if \<not> truthy map_link
               then bind_res (logmsg ERROR [Text ''No map URL found in response''])
                      (\<lambda>_. raise (Exn ValueError [Lit ''No map URL available''] None))
               else ret ()) (\<lambda>_.
     bind_res (download N map_link 10) (\<lambda>response.
     bind_res (logmsg DEBUG [Text ''Map response status: '', Status (status_code response)]) (\<lambda>_.
     bind_res (parse_map D response) (\<lambda>(header, mapDataArr).
     bind_res (render_layout L mapDataArr header colors) (\<lambda>img.
     ret (links, header, img))))))))"

text \<open>The body of the \<open>try\<close> of \<open>get_map\<close> (lines 150 to 227).\<close>

definition get_map_body :: "('img, 'arr) imaging \<Rightarrow> decoders \<Rightarrow> cloud
     \<Rightarrow> string \<Rightarrow> string \<Rightarrow> string \<Rightarrow> string \<Rightarrow> pydict \<Rightarrow> pydict \<Rightarrow> pyval list option
     \<Rightarrow> (pydict \<times> 'img) res" where
  "get_map_body L D N server client_id secret_key device_id colors settings urls =
     bind_res (fetch_and_render L D N server client_id secret_key device_id colors urls)
       (\<lambda>(links, header, img).
     bind_res (path_stage L D N img header colors settings links) (\<lambda>img'.
     case flip L header img' settings of (l, h, im) \<Rightarrow> (l, Inr (h, im))))"

definition get_map :: "('img, 'arr) imaging \<Rightarrow> decoders \<Rightarrow> cloud
     \<Rightarrow> string \<Rightarrow> string \<Rightarrow> string \<Rightarrow> string \<Rightarrow> pydict \<Rightarrow> pydict \<Rightarrow> pyval list option
     \<Rightarrow> (pydict \<times> 'img) res" where
  "get_map L D N server client_id secret_key device_id colors settings urls =
     try_except
       (get_map_body L D N server client_id secret_key device_id colors settings urls)
       (\<lambda>e. True)
       (\<lambda>e. bind_res (logmsg ERROR [Text ''Map processing failed: '', StrExn e]) (\<lambda>_.
             raise (Exn ValueError [Lit ''Failed to process map data''] (Some e))))"

section \<open>The claims' own notions\<close>

text \<open>The line that \<open>parse_map\<close> logs when it turns to the binary decoders.\<close>

definition fallback_line :: logline where
  "fallback_line = (DEBUG, [Text ''Falling back to binary parsing''])"

text \<open>A payload with a top-level key \<open>result\<close> that holds a list.\<close>

definition results_list_key :: "pyval \<Rightarrow> bool" where
  "results_list_key data =
     (case data of
        PDict kvs \<Rightarrow> (case map_of kvs ''result'' of Some (PList _) \<Rightarrow> True | _ \<Rightarrow> False)
      | _ \<Rightarrow> False)"

text \<open>A payload with the wrapper key \<open>map_data\<close>.\<close>

definition wrapper_key :: "pyval \<Rightarrow> bool" where
  "wrapper_key data = (case data of PDict kvs \<Rightarrow> map_of kvs ''map_data'' \<noteq> None | _ \<Rightarrow> False)"

text \<open>What such a payload hands to the Structured decoder.\<close>

definition structured_input :: "pyval \<Rightarrow> pyval option" where
  "structured_input data =
     (if results_list_key data then Some data
      else (case data of PDict kvs \<Rightarrow> map_of kvs ''map_data'' | _ \<Rightarrow> None))"

text \<open>The two exceptions that wrap a failure, and the lines that report a recovered one.\<close>

definition parse_failure :: "exn \<Rightarrow> exn" where
  "parse_failure e =
     Exn ValueError [Lit ''Failed to parse map data in any supported format''] (Some e)"

definition process_failure :: "exn \<Rightarrow> exn" where
  "process_failure e = Exn ValueError [Lit ''Failed to process map data''] (Some e)"

definition path_rendering_failed :: "exn \<Rightarrow> logline" where
  "path_rendering_failed e = (ERROR, [Text ''Path rendering failed: '', StrExn e])"

definition path_parsing_failed :: "exn \<Rightarrow> logline" where
  "path_parsing_failed e = (ERROR, [Text ''Path parsing failed: '', StrExn e])"

definition transformation_failed :: "exn \<Rightarrow> logline" where
  "transformation_failed e = (ERROR, [Text ''Image transformation failed: '', StrExn e])"

text \<open>The centre and the radius of the circle that \<open>draw.ellipse\<close> inscribes in a box.\<close>

definition box_centre :: "(int \<times> int) \<times> (int \<times> int) \<Rightarrow> int \<times> int" where
  "box_centre b = ((fst (fst b) + fst (snd b)) div 2, (snd (fst b) + snd (snd b)) div 2)"

definition box_radius :: "(int \<times> int) \<times> (int \<times> int) \<Rightarrow> int \<times> int" where
  "box_radius b = ((fst (snd b) - fst (fst b)) div 2, (snd (snd b) - snd (fst b)) div 2)"

text \<open>An entry of the link list that carries the key \<open>map_url\<close>.\<close>

definition carries_map_url :: "pyval \<Rightarrow> bool" where
  "carries_map_url item = (py_contains ''map_url'' item = Inr True)"

section \<open>Sample inputs\<close>

text \<open>
  A library that records what was done to an image instead of doing it: an image is its
  size and the operations applied to it, in order.
\<close>

datatype draw_op =
    Resized "nat \<times> nat"
  | Rotated pyval
  | Transposed flip_method
  | LineDrawn "int list" "pyval list" nat
  | EllipseDrawn "(int \<times> int) \<times> (int \<times> int)" "pyval list" "pyval list" nat

datatype picture = Picture (dims: "nat \<times> nat") (history: "draw_op list")

definition paint :: "picture \<Rightarrow> draw_op \<Rightarrow> picture" where
  "paint p operation = Picture (dims p) (history p @ [operation])"

fun is_ellipse :: "draw_op \<Rightarrow> bool" where
  "is_ellipse (EllipseDrawn _ _ _ _) = True"
| "is_ellipse _ = False"

text \<open>Python's \<open>str\<close> on the scalars; a container is not rendered.\<close>

fun sample_str :: "pyval \<Rightarrow> string" where
  "sample_str (PStr s) = s"
| "sample_str (PInt i) = (if i = 0 then ''0'' else if i = 1 then ''1'' else ''2'')"
| "sample_str (PBool b) = (if b then ''True'' else ''False'')"
| "sample_str PNone = ''None''"
| "sample_str _ = ''[]''"

definition sample_fromarray :: "nat list \<times> pyval \<times> pyval \<Rightarrow> exn + picture" where
  "sample_fromarray a =
     (case a of
        (px, PInt w, PInt h) \<Rightarrow> Inr (Picture (nat w, nat h) [])
      | _ \<Rightarrow> Inl (Exn TypeError [Lit ''bad array''] None))"

definition sample_pil :: "(picture, nat list \<times> pyval \<times> pyval) imaging" where
  "sample_pil =
     \<lparr> str_of = sample_str,
       to_array_custom0 = (\<lambda>px w h colors. Inr (px, w, h)),
       to_array_v0 = (\<lambda>px w h colors. Inr (px, w, h)),
       to_array_v1 = (\<lambda>px w h rooms colors. Inr (px, w, h)),
       fromarray = sample_fromarray,
       size_of = dims,
       resize_box = (\<lambda>p sz. Inr (Picture sz (history p @ [Resized sz]))),
       rotate_img = (\<lambda>p a. Inr (paint p (Rotated a))),
       transpose_img = (\<lambda>p m. Inr (paint p (Transposed m))),
       Draw = (\<lambda>p. None),
       line = (\<lambda>p xy fill w. (paint p (LineDrawn xy fill w), None)),
       ellipse = (\<lambda>p box outline fill w. (paint p (EllipseDrawn box outline fill w), None)) \<rparr>"

text \<open>The same library with a \<open>transpose\<close> that runs out of memory.\<close>

definition out_of_memory :: exn where
  "out_of_memory = Exn (OtherError ''MemoryError'') [] None"

definition failing_pil :: "(picture, nat list \<times> pyval \<times> pyval) imaging" where
  "failing_pil = sample_pil \<lparr> transpose_img := (\<lambda>p m. Inl out_of_memory) \<rparr>"

definition custom0_header :: pydict where
  "custom0_header =
     [(''version'', PStr ''custom0''), (''width'', PInt 2), (''height'', PInt 1),
      (''pileX'', PInt 30), (''pileY'', PInt 40),
      (''mapResolution'', PInt 5), (''x_min'', PInt 10), (''y_min'', PInt 20)]"

definition binary_header :: "int \<Rightarrow> pydict" where
  "binary_header v =
     [(''version'', PList [PInt v]), (''width'', PInt 2), (''height'', PInt 1),
      (''pileX'', PInt 3), (''pileY'', PInt 4)]"

fun sample_points :: "pyval list \<Rightarrow> exn + int list list" where
  "sample_points [] = Inr []"
| "sample_points (PList [PInt x, PInt y] # ps) =
     (case sample_points ps of Inl e \<Rightarrow> Inl e | Inr r \<Rightarrow> Inr ([x, y] # r))"
| "sample_points _ = Inl (Exn TypeError [Lit ''bad point''] None)"

definition sample_decoders :: decoders where
  "sample_decoders =
     \<lparr> decode_custom0 = (\<lambda>data.
         case data of
           PDict kvs \<Rightarrow> Inr (custom0_header, [0, 1])
         | _ \<Rightarrow> Inl (Exn TypeError [Lit ''bad payload''] None)),
       decode_header = (\<lambda>s.
         if length s < 48 then Inl (Exn ValueError [Lit ''header too short''] None)
         else Inr (binary_header
                (if take 2 s = ''00'' then 0 else if take 2 s = ''01'' then 1 else 2))),
       decode_v0 = (\<lambda>s header. Inr [0, 1]),
       decode_v1 = (\<lambda>s header. Inr [1, 0]),
       decode_path_custom0 = (\<lambda>data header.
         case data of
           PList ps \<Rightarrow> sample_points ps
         | _ \<Rightarrow> Inl (Exn KeyError [Val (PStr ''path'')] None)),
       decode_path_v1 = (\<lambda>s.
         if s = [] then Inl (Exn ValueError [Lit ''empty path payload''] None)
         else Inr [[1, 2], [3, 4]]),
       format_path_point = (\<lambda>d reverse_y.
         case (map_of d ''x'', map_of d ''y'') of
           (Some (PInt x), Some (PInt y)) \<Rightarrow> Inr (x, if reverse_y then - y else y)
         | _ \<Rightarrow> Inl (Exn TypeError [Lit ''bad point''] None)),
       map_to_image = (\<lambda>p resolution x_min y_min.
         case (p, resolution, x_min, y_min) of
           ([PInt x, PInt y], PInt r, PInt a, PInt b) \<Rightarrow>
             if r = 0 then Inl (Exn ZeroDivisionError [Lit ''division by zero''] None)
             else Inr ((x - a) div r, (y - b) div r)
         | _ \<Rightarrow> Inl (Exn TypeError [Lit ''bad point''] None)) \<rparr>"

definition not_json :: exn where
  "not_json = Exn JSONDecodeError [Lit ''Expecting value''] None"

definition binary_response :: "8 word \<Rightarrow> response" where
  "binary_response v =
     \<lparr> json = Inl not_json, content = v # replicate 23 0, status_code = 200,
       raise_for_status = None \<rparr>"

definition json_response :: "pyval \<Rightarrow> response" where
  "json_response data =
     \<lparr> json = Inr data, content = [], status_code = 200, raise_for_status = None \<rparr>"

definition sample_path :: pyval where
  "sample_path = PList [PList [PInt 1, PInt 2], PList [PInt 3, PInt 4]]"

definition unreachable :: exn where
  "unreachable = Exn RequestException [Lit ''connection failed''] None"

definition sample_cloud :: cloud where
  "sample_cloud =
     \<lparr> get_download_link = (\<lambda>server client_id secret_key device_id.
         Inr (PDict [(''result'',
                PList [PDict [(''map_url'', PStr ''map0'')],
                       PDict [(''map_url'', PStr ''path'')]])])),
       requests_get = (\<lambda>url timeout.
         if url = PStr ''map0'' then Inr (binary_response 0)
         else if url = PStr ''map2'' then Inr (binary_response 2)
         else if url = PStr ''mapc'' then Inr (json_response (PDict [(''map_data'', PDict [])]))
         else if url = PStr ''path'' then Inr (json_response sample_path)
         else if url = PStr ''nopath'' then Inr (json_response (PList []))
         else if url = PStr ''badpath'' then Inr (json_response (PDict []))
         else if url = PStr ''binpath'' then Inr (binary_response 0 \<lparr> content := [] \<rparr>)
         else Inl unreachable) \<rparr>"

definition links_of :: "string \<Rightarrow> string \<Rightarrow> pyval list" where
  "links_of m p = [PDict [(''map_url'', PStr m)], PDict [(''map_url'', PStr p)]]"

definition path_on :: pydict where
  "path_on = [(''path_enabled'', PBool True)]"

section \<open>Computations: how the combinators unfold\<close>

lemma bind_res_Inl: "bind_res (l, Inl e) f = (l, Inl e)"
  by (simp add: bind_res_def)

lemma bind_res_Inr: "bind_res (l, Inr x) f = (l @ fst (f x), snd (f x))"
  by (simp add: bind_res_def split: prod.splits)

lemma bind_res_lift_Inr: "bind_res (lift (Inr x)) f = f x"
  by (simp add: bind_res_def lift_def split: prod.splits)

lemma bind_res_lift_Inl: "bind_res (lift (Inl e)) f = ([], Inl e)"
  by (simp add: bind_res_def lift_def)

lemma bind_res_ret: "bind_res (ret x) f = f x"
  by (simp add: bind_res_def ret_def split: prod.splits)

lemma bind_res_raise: "bind_res (raise e) f = ([], Inl e)"
  by (simp add: bind_res_def raise_def)

lemma bind_res_logmsg: "bind_res (logmsg lvl m) f = ((lvl, m) # fst (f ()), snd (f ()))"
  by (simp add: bind_res_def logmsg_def split: prod.splits)

lemmas res_simps = bind_res_Inl bind_res_Inr bind_res_lift_Inr bind_res_lift_Inl bind_res_ret
  bind_res_raise bind_res_logmsg

lemma try_except_Inr: "try_except (l, Inr x) c h = (l, Inr x)"
  by (simp add: try_except_def)

lemma try_except_Inl:
  "try_except (l, Inl e) c h = (if c e then (l @ fst (h e), snd (h e)) else (l, Inl e))"
  by (simp add: try_except_def split: prod.splits)

section \<open>parse_map: structured first, binary as the fallback\<close>

lemma parse_map_json_keyed:
  assumes "json resp = Inr data" "structured_input data = Some arg"
  shows "parse_map_json D resp =
           ([(DEBUG, [Text ''Raw JSON response: '', Dumps data])], decode_custom0 D arg)"
  using assms
  by (cases data)
     (auto simp: parse_map_json_def structured_input_def results_list_key_def res_simps lift_def
        split: option.splits pyval.splits if_splits)

lemma parse_map_binary_log: "fallback_line \<in> set (fst (parse_map_binary D resp))"
  by (simp add: parse_map_binary_def res_simps fallback_line_def)

lemma parse_map_json_log: "fallback_line \<notin> set (fst (parse_map_json D resp))"
  by (cases "json resp")
     (auto simp: parse_map_json_def res_simps lift_def raise_def ret_def fallback_line_def
        bind_res_def logmsg_def
        split: sum.splits prod.splits if_splits)

lemma parse_map_json_raises_json:
  assumes "snd (parse_map_json D resp) = Inl e" "is_JSONDecodeError e"
  shows "json resp = Inl e
       \<or> (\<exists>data. json resp = Inr data \<and> \<not> results_list_key data \<and> \<not> wrapper_key data)
       \<or> (\<exists>data arg. json resp = Inr data \<and> structured_input data = Some arg
             \<and> decode_custom0 D arg = Inl e)"
proof (cases "json resp")
  case (Inl e')
  with assms show ?thesis by (simp add: parse_map_json_def res_simps)
next
  case (Inr data)
  show ?thesis
  proof (cases "structured_input data")
    case (Some arg)
    with Inr assms parse_map_json_keyed [of resp data arg D] show ?thesis by auto
  next
    case None
    then have "\<not> results_list_key data" "\<not> wrapper_key data"
      by (auto simp: structured_input_def wrapper_key_def split: if_splits pyval.splits)
    with Inr show ?thesis by blast
  qed
qed

lemma parse_map_unfold:
  "parse_map D resp =
     (case parse_map_json D resp of
        (l, Inl e) \<Rightarrow>
          if is_JSONDecodeError e
          then (l @ fst (parse_map_binary D resp), snd (parse_map_binary D resp))
          else (l, Inl e)
      | (l, Inr x) \<Rightarrow> (l, Inr x))"
  by (simp add: parse_map_def try_except_def split: prod.splits sum.splits)

lemma parse_map_json_neither:
  assumes "json resp = Inr (PDict kvs)" "\<not> results_list_key (PDict kvs)"
    "\<not> wrapper_key (PDict kvs)"
  shows "parse_map_json D resp =
           ([(DEBUG, [Text ''Raw JSON response: '', Dumps (PDict kvs)])],
            Inl (Exn JSONDecodeError [Lit ''No recognized JSON format''] None))"
  using assms
  by (auto simp: parse_map_json_def results_list_key_def wrapper_key_def res_simps raise_def
        ret_def split: option.splits pyval.splits)

lemma parse_map_not_json:
  assumes "json resp = Inl e" "is_JSONDecodeError e"
  shows "parse_map D resp = parse_map_binary D resp"
  using assms by (simp add: parse_map_unfold parse_map_json_def res_simps)

text \<open>
  C1. \<open>parse_map\<close> tries the structured decoding first. When the payload parses as JSON and
  has the key \<open>result\<close> holding a list, or else the key \<open>map_data\<close>, the result is the
  Structured decoder's (\<open>decode_custom0\<close>), whatever the binary decoders would do, and
  nothing is said of a fallback. The binary decoding is reached only when the payload is
  not JSON, or has neither key, or the Structured decoder itself reports a JSON error; and
  a payload that is not JSON, or a keyed object with neither key, always reaches it: the
  result is then the binary decoding of the same response.
\<close>

theorem parse_map_structured_first:
  "(\<forall>data arg. json resp = Inr data \<and> structured_input data = Some arg
       \<and> \<not> (\<exists>e. decode_custom0 D arg = Inl e \<and> is_JSONDecodeError e)
       \<longrightarrow> snd (parse_map D resp) = decode_custom0 D arg
           \<and> fallback_line \<notin> set (logged (parse_map D resp)))
   \<and> (fallback_line \<in> set (logged (parse_map D resp))
       \<longrightarrow> (\<exists>e. json resp = Inl e \<and> is_JSONDecodeError e)
           \<or> (\<exists>data. json resp = Inr data \<and> \<not> results_list_key data \<and> \<not> wrapper_key data)
           \<or> (\<exists>data arg e. json resp = Inr data \<and> structured_input data = Some arg
                 \<and> decode_custom0 D arg = Inl e \<and> is_JSONDecodeError e))
   \<and> ((\<exists>e. json resp = Inl e \<and> is_JSONDecodeError e)
        \<or> (\<exists>kvs. json resp = Inr (PDict kvs) \<and> \<not> results_list_key (PDict kvs)
              \<and> \<not> wrapper_key (PDict kvs))
       \<longrightarrow> fallback_line \<in> set (logged (parse_map D resp))
           \<and> snd (parse_map D resp) = snd (parse_map_binary D resp))"
  (is "?A \<and> ?B \<and> ?C")
proof (intro conjI)
  show ?A
  proof (intro allI impI, elim conjE)
    fix data arg
    assume j: "json resp = Inr data" and s: "structured_input data = Some arg"
      and n: "\<not> (\<exists>e. decode_custom0 D arg = Inl e \<and> is_JSONDecodeError e)"
    from parse_map_json_keyed [OF j s, of D] n
    show "snd (parse_map D resp) = decode_custom0 D arg
          \<and> fallback_line \<notin> set (logged (parse_map D resp))"
      by (cases "decode_custom0 D arg")
         (auto simp: parse_map_unfold logged_def fallback_line_def)
  qed
next
  show ?B
  proof
    assume f: "fallback_line \<in> set (logged (parse_map D resp))"
    obtain l r where m: "parse_map_json D resp = (l, r)" by (cases "parse_map_json D resp")
    have nl: "fallback_line \<notin> set l"
      using parse_map_json_log [of D resp] m by simp
    from f m nl obtain e where e: "r = Inl e" "is_JSONDecodeError e"
      by (cases r) (auto simp: parse_map_unfold logged_def split: if_splits)
    from parse_map_json_raises_json [of D resp e] m e
    show "(\<exists>e. json resp = Inl e \<and> is_JSONDecodeError e)
           \<or> (\<exists>data. json resp = Inr data \<and> \<not> results_list_key data \<and> \<not> wrapper_key data)
           \<or> (\<exists>data arg e. json resp = Inr data \<and> structured_input data = Some arg
                 \<and> decode_custom0 D arg = Inl e \<and> is_JSONDecodeError e)"
      by auto
  qed
next
  show ?C
  proof
    assume "(\<exists>e. json resp = Inl e \<and> is_JSONDecodeError e)
        \<or> (\<exists>kvs. json resp = Inr (PDict kvs) \<and> \<not> results_list_key (PDict kvs)
              \<and> \<not> wrapper_key (PDict kvs))"
    then have "\<exists>l e. parse_map_json D resp = (l, Inl e) \<and> is_JSONDecodeError e"
    proof
      assume "\<exists>e. json resp = Inl e \<and> is_JSONDecodeError e"
      then show ?thesis by (auto simp: parse_map_json_def res_simps)
    next
      assume "\<exists>kvs. json resp = Inr (PDict kvs) \<and> \<not> results_list_key (PDict kvs)
              \<and> \<not> wrapper_key (PDict kvs)"
      then show ?thesis
        using parse_map_json_neither [of resp _ D] by (auto simp: is_JSONDecodeError_def)
    qed
    then show "fallback_line \<in> set (logged (parse_map D resp))
           \<and> snd (parse_map D resp) = snd (parse_map_binary D resp)"
      using parse_map_binary_log [of D resp]
      by (auto simp: parse_map_unfold logged_def)
  qed
qed

lemma sample_binary_v0:
  "parse_map_binary sample_decoders (binary_response 0) =
     ([fallback_line], Inr (binary_header 0, [0, 1]))"
  by code_simp

theorem parse_map_structured_first_witness:
  "snd (parse_map sample_decoders (json_response (PDict [(''map_data'', PDict [])])))
     = Inr (custom0_header, [0, 1])
   \<and> fallback_line \<notin> set (logged (parse_map sample_decoders
         (json_response (PDict [(''map_data'', PDict [])]))))
   \<and> fallback_line \<in> set (logged (parse_map sample_decoders (binary_response 0)))
   \<and> snd (parse_map sample_decoders (binary_response 0)) = Inr (binary_header 0, [0, 1])"
proof -
  let ?d = "PDict [(''map_data'', PDict [])]"
  have h: "json (json_response ?d) = Inr ?d \<and> structured_input ?d = Some (PDict [])
      \<and> \<not> (\<exists>e. decode_custom0 sample_decoders (PDict []) = Inl e \<and> is_JSONDecodeError e)"
    by (simp add: json_response_def structured_input_def results_list_key_def
        sample_decoders_def)
  have k: "\<exists>e. json (binary_response 0) = Inl e \<and> is_JSONDecodeError e"
    by (simp add: binary_response_def not_json_def is_JSONDecodeError_def)
  from parse_map_structured_first [where resp = "json_response ?d" and D = sample_decoders] h
  have a: "snd (parse_map sample_decoders (json_response ?d))
             = decode_custom0 sample_decoders (PDict [])
           \<and> fallback_line \<notin> set (logged (parse_map sample_decoders (json_response ?d)))"
    by blast
  from parse_map_structured_first [where resp = "binary_response 0" and D = sample_decoders] k
  have b: "fallback_line \<in> set (logged (parse_map sample_decoders (binary_response 0)))
           \<and> snd (parse_map sample_decoders (binary_response 0))
               = snd (parse_map_binary sample_decoders (binary_response 0))"
    by blast
  have c: "decode_custom0 sample_decoders (PDict []) = Inr (custom0_header, [0, 1])"
    by (simp add: sample_decoders_def)
  from a b c show ?thesis
    by (simp add: sample_binary_v0)
qed

section \<open>Fatal errors: unsupported versions and the single failure kind\<close>


lemma raised_pair [simp]: "raised (l, Inl e) = Some e" "raised (l, Inr x) = None"
  by (simp_all add: raised_def)

lemma returned_pair [simp]: "returned (l, Inl e) = None" "returned (l, Inr x) = Some x"
  by (simp_all add: returned_def)

lemma raised_bind_res:
  "raised m = Some e \<Longrightarrow> raised (bind_res m f) = Some e"
  by (cases m) (auto simp: raised_def bind_res_def split: sum.splits)

lemma get_map_wraps_body:
  "raised (get_map_body L D N s c k d colors settings urls) = Some e \<Longrightarrow>
   raised (get_map L D N s c k d colors settings urls) = Some (process_failure e)"
  by (cases "get_map_body L D N s c k d colors settings urls")
     (auto simp: get_map_def try_except_def raised_def res_simps raise_def process_failure_def
        split: sum.splits prod.splits)

lemma get_map_body_raises_fetch:
  "raised (fetch_and_render L D N s c k d colors urls) = Some e \<Longrightarrow>
   raised (get_map_body L D N s c k d colors settings urls) = Some e"
  unfolding get_map_body_def by (rule raised_bind_res)

lemma fetch_and_render_unfold:
  assumes "resolve_links N s c k d urls = (l0, Inr links)" "map_link_of links = Inr ml"
    "truthy ml" "download N ml 10 = (l1, Inr resp)"
  shows "snd (fetch_and_render L D N s c k d colors urls) =
     (case snd (parse_map D resp) of
        Inl e \<Rightarrow> Inl e
      | Inr (header, grid) \<Rightarrow>
          (case snd (render_layout L grid header colors) of
             Inl e \<Rightarrow> Inl e
           | Inr img \<Rightarrow> Inr (links, header, img)))"
proof -
  obtain l2 r2 where p: "parse_map D resp = (l2, r2)" by (cases "parse_map D resp")
  show ?thesis
  proof (cases r2)
    case (Inl e)
    with p assms show ?thesis by (simp add: fetch_and_render_def res_simps)
  next
    case (Inr hg)
    obtain header grid where hg: "hg = (header, grid)" by (cases hg)
    obtain l3 r3 where r: "render_layout L grid header colors = (l3, r3)"
      by (cases "render_layout L grid header colors")
    from p Inr hg r assms show ?thesis
      by (cases r3) (simp_all add: fetch_and_render_def res_simps ret_def)
  qed
qed

lemma fetch_and_render_parse:
  assumes "resolve_links N s c k d urls = (l0, Inr links)" "map_link_of links = Inr ml"
    "truthy ml" "download N ml 10 = (l1, Inr resp)"
  shows "raised (parse_map D resp) = Some e \<Longrightarrow>
         raised (fetch_and_render L D N s c k d colors urls) = Some e"
    and "parse_map D resp = (l2, Inr (header, grid)) \<Longrightarrow>
         raised (render_layout L grid header colors) = Some e \<Longrightarrow>
         raised (fetch_and_render L D N s c k d colors urls) = Some e"
  using fetch_and_render_unfold [OF assms, where L = L and D = D and colors = colors]
  by (auto simp: raised_def split: sum.splits)

lemma parse_map_binary_versions:
  assumes "decode_header D (take 48 (hex (content resp))) = Inr header"
    "map_of header ''version'' = Some version"
  shows "snd (parse_map_binary D resp) =
     (if eq_int_singleton version 0
      then (case decode_v0 D (hex (content resp)) header of
              Inl e \<Rightarrow> Inl (parse_failure e) | Inr grid \<Rightarrow> Inr (header, grid))
      else if eq_int_singleton version 1
      then (case decode_v1 D (hex (content resp)) header of
              Inl e \<Rightarrow> Inl (parse_failure e) | Inr grid \<Rightarrow> Inr (header, grid))
      else Inl (parse_failure (Exn NotSupportedError
                  [Lit ''Map version '', Val version, Lit '' is not supported.''] None)))"
  using assms
  by (auto simp: parse_map_binary_def parse_map_binary_body_def res_simps try_except_def
        dict_getitem_def lift_def raise_def ret_def parse_failure_def Let_def bind_res_def
        logmsg_def
        split: sum.splits prod.splits)

text \<open>
  C2, as the code has it. For a payload that is not JSON and whose decoded header has a
  version that is neither \<open>[0]\<close> nor \<open>[1]\<close>, \<open>parse_map\<close> returns nothing: it raises
  \<open>ValueError\<close> (``Failed to parse map data in any supported format''), raised from the
  \<open>NotSupportedError\<close> that names the version, and a request that fetched this payload
  returns no image. Version \<open>[0]\<close> selects \<open>decode_v0\<close> (Legacy) and version \<open>[1]\<close> selects
  \<open>decode_v1\<close> (Rich).
\<close>

theorem parse_map_version_dispatch:
  assumes "json resp = Inl je" "is_JSONDecodeError je"
    and "decode_header D (take 48 (hex (content resp))) = Inr header"
    and "map_of header ''version'' = Some version"
  shows "(\<not> eq_int_singleton version 0 \<and> \<not> eq_int_singleton version 1 \<longrightarrow>
           returned (parse_map D resp) = None
           \<and> raised (parse_map D resp) =
               Some (parse_failure (Exn NotSupportedError
                       [Lit ''Map version '', Val version, Lit '' is not supported.''] None))
           \<and> (\<forall>(L :: ('img, 'arr) imaging) N s c k d colors settings urls l0 links ml l1.
                 resolve_links N s c k d urls = (l0, Inr links) \<and> map_link_of links = Inr ml
                 \<and> truthy ml \<and> download N ml 10 = (l1, Inr resp)
                 \<longrightarrow> returned (get_map L D N s c k d colors settings urls) = None))
       \<and> (eq_int_singleton version 0 \<longrightarrow>
           snd (parse_map D resp) =
             (case decode_v0 D (hex (content resp)) header of
                Inl e \<Rightarrow> Inl (parse_failure e) | Inr grid \<Rightarrow> Inr (header, grid)))
       \<and> (eq_int_singleton version 1 \<longrightarrow>
           snd (parse_map D resp) =
             (case decode_v1 D (hex (content resp)) header of
                Inl e \<Rightarrow> Inl (parse_failure e) | Inr grid \<Rightarrow> Inr (header, grid)))"
proof -
  have pm: "parse_map D resp = parse_map_binary D resp"
    using assms(1,2) by (rule parse_map_not_json)
  note v = parse_map_binary_versions [OF assms(3,4)]
  have both: "eq_int_singleton version 1 \<Longrightarrow> \<not> eq_int_singleton version 0"
    by (auto elim!: eq_int_singleton.elims eq_int.elims split: if_splits)
  { fix L :: "('img, 'arr) imaging" and N s c k d colors settings urls l0 links ml l1
    assume n: "\<not> eq_int_singleton version 0" "\<not> eq_int_singleton version 1"
      and p: "resolve_links N s c k d urls = (l0, Inr links)" "map_link_of links = Inr ml"
        "truthy ml" "download N ml 10 = (l1, Inr resp)"
    from n v pm have "raised (parse_map D resp) \<noteq> None" by (simp add: raised_def)
    then obtain e where "raised (parse_map D resp) = Some e" by auto
    from fetch_and_render_parse(1) [OF p this]
    have "raised (fetch_and_render L D N s c k d colors urls) = Some e" .
    then have "raised (get_map L D N s c k d colors settings urls) = Some (process_failure e)"
      by (intro get_map_wraps_body get_map_body_raises_fetch)
    then have "returned (get_map L D N s c k d colors settings urls) = None"
      by (auto simp: raised_def returned_def split: sum.splits)
  }
  then show ?thesis using v pm both
    by (auto simp: raised_def returned_def)
qed

text \<open>
  C2 as stated fails: for the version \<open>[2]\<close> the exception that leaves \<open>parse_map\<close> is a
  \<open>ValueError\<close>, not the \<open>NotSupportedError\<close>, which is only its cause.
\<close>

theorem parse_map_unsupported_counterexample:
  "map_option exn_kind (raised (parse_map sample_decoders (binary_response 2))) = Some ValueError
   \<and> map_option exn_kind (raised (parse_map sample_decoders (binary_response 2)))
       \<noteq> Some NotSupportedError"
  by code_simp

lemma sample_json_error: "json (binary_response v) = Inl not_json" "is_JSONDecodeError not_json"
  by (simp_all add: binary_response_def not_json_def is_JSONDecodeError_def)

lemma sample_header:
  "decode_header sample_decoders (take 48 (hex (content (binary_response 0)))) = Inr (binary_header 0)"
  "decode_header sample_decoders (take 48 (hex (content (binary_response 1)))) = Inr (binary_header 1)"
  "decode_header sample_decoders (take 48 (hex (content (binary_response 2)))) = Inr (binary_header 2)"
  by code_simp+

lemma sample_version: "map_of (binary_header v) ''version'' = Some (PList [PInt v])"
  by (simp add: binary_header_def)

lemma sample_links:
  "resolve_links sample_cloud s c k d (Some links) = ([], Inr links)"
  "map_link_of (links_of m p) = Inr (PStr m)"
  "path_link_of (links_of m p) = Inr (PStr p)"
  by (simp_all add: resolve_links_def ret_def map_link_of_def path_link_of_def links_of_def)

lemma sample_download:
  "download sample_cloud (PStr ''map0'') 10 = ([], Inr (binary_response 0))"
  "download sample_cloud (PStr ''map2'') 10 = ([], Inr (binary_response 2))"
  "download sample_cloud (PStr ''path'') 10 = ([], Inr (json_response sample_path))"
  "download sample_cloud (PStr ''nopath'') 10 = ([], Inr (json_response (PList [])))"
  "download sample_cloud (PStr ''badpath'') 10 = ([], Inr (json_response (PDict [])))"
  by (simp_all add: download_def sample_cloud_def res_simps try_except_def lift_def ret_def
        binary_response_def json_response_def)

lemma sample_download_fails:
  "download sample_cloud (PStr ''gone'') 10 =
     ([(ERROR, [Text ''Download failed for URL '', Shown (PStr ''gone''), Text '': '',
               StrExn unreachable])], Inl unreachable)"
  by (simp add: download_def sample_cloud_def res_simps try_except_def lift_def raise_def
        is_RequestException_def unreachable_def logmsg_def bind_res_def)

theorem parse_map_version_dispatch_witness:
  "returned (parse_map sample_decoders (binary_response 2)) = None
   \<and> raised (parse_map sample_decoders (binary_response 2)) =
       Some (parse_failure (Exn NotSupportedError
               [Lit ''Map version '', Val (PList [PInt 2]), Lit '' is not supported.''] None))
   \<and> returned (get_map sample_pil sample_decoders sample_cloud [] [] [] [] [] []
         (Some (links_of ''map2'' ''path''))) = None
   \<and> snd (parse_map sample_decoders (binary_response 0)) = Inr (binary_header 0, [0, 1])
   \<and> snd (parse_map sample_decoders (binary_response 1)) = Inr (binary_header 1, [1, 0])"
proof -
  note t2 = parse_map_version_dispatch [OF sample_json_error sample_header(3) sample_version]
  note t0 = parse_map_version_dispatch [OF sample_json_error sample_header(1) sample_version]
  note t1 = parse_map_version_dispatch [OF sample_json_error sample_header(2) sample_version]
  have n: "\<not> eq_int_singleton (PList [PInt 2]) 0 \<and> \<not> eq_int_singleton (PList [PInt 2]) 1"
    by simp
  have p: "resolve_links sample_cloud [] [] [] [] (Some (links_of ''map2'' ''path''))
             = ([], Inr (links_of ''map2'' ''path''))
           \<and> map_link_of (links_of ''map2'' ''path'') = Inr (PStr ''map2'')
           \<and> truthy (PStr ''map2'')
           \<and> download sample_cloud (PStr ''map2'') 10 = ([], Inr (binary_response 2))"
    by (simp add: sample_links sample_download)
  from t2 n p
  have a: "returned (parse_map sample_decoders (binary_response 2)) = None
     \<and> raised (parse_map sample_decoders (binary_response 2)) =
       Some (parse_failure (Exn NotSupportedError
               [Lit ''Map version '', Val (PList [PInt 2]), Lit '' is not supported.''] None))
     \<and> returned (get_map sample_pil sample_decoders sample_cloud [] [] [] [] [] []
         (Some (links_of ''map2'' ''path''))) = None"
    by blast
  from t0 have b: "snd (parse_map sample_decoders (binary_response 0)) = Inr (binary_header 0, [0, 1])"
    by (simp add: sample_decoders_def)
  from t1 have c: "snd (parse_map sample_decoders (binary_response 1)) = Inr (binary_header 1, [1, 0])"
    by (simp add: sample_decoders_def)
  from a b c show ?thesis by simp
qed

lemma fetch_and_render_download:
  assumes "resolve_links N s c k d urls = (l0, Inr links)" "map_link_of links = Inr ml"
    "truthy ml" "download N ml 10 = (l1, Inl e)"
  shows "raised (fetch_and_render L D N s c k d colors urls) = Some e"
  using assms by (simp add: fetch_and_render_def res_simps)

lemma parse_map_binary_wraps:
  "raised (parse_map_binary_body D resp) = Some e \<Longrightarrow>
   raised (parse_map_binary D resp) = Some (parse_failure e)"
  by (cases "parse_map_binary_body D resp")
     (auto simp: parse_map_binary_def res_simps try_except_def raised_def raise_def
        parse_failure_def bind_res_def logmsg_def split: sum.splits)

text \<open>
  C4. Whatever exception ends the body of \<open>get_map\<close>, the caller receives one kind of
  failure, \<open>ValueError\<close> (``Failed to process map data''), raised from that exception; and
  \<open>get_map\<close> raises nothing else. In particular a failed download of the map blob, a
  failure of \<open>parse_map\<close> and a failure of \<open>render_layout\<close> reach the caller so wrapped. Inside
  \<open>parse_map\<close>, a failure of the binary decoding is wrapped the same way, with its cause.
\<close>

theorem get_map_failure_wrapped:
  fixes L :: "('img, 'arr) imaging"
  shows
  "(\<forall>e. raised (get_map_body L D N s c k d colors settings urls) = Some e
       \<longrightarrow> raised (get_map L D N s c k d colors settings urls) = Some (process_failure e)
           \<and> exn_kind (process_failure e) = ValueError
           \<and> exn_cause (process_failure e) = Some e)
   \<and> (\<forall>x. raised (get_map L D N s c k d colors settings urls) = Some x
       \<longrightarrow> (\<exists>e. x = process_failure e
                \<and> raised (get_map_body L D N s c k d colors settings urls) = Some e))
   \<and> (\<forall>l0 links ml l1 resp l2 header grid e.
        resolve_links N s c k d urls = (l0, Inr links) \<and> map_link_of links = Inr ml \<and> truthy ml
        \<and> (download N ml 10 = (l1, Inl e)
           \<or> download N ml 10 = (l1, Inr resp) \<and> raised (parse_map D resp) = Some e
           \<or> download N ml 10 = (l1, Inr resp) \<and> parse_map D resp = (l2, Inr (header, grid))
              \<and> raised (render_layout L grid header colors) = Some e)
        \<longrightarrow> raised (get_map L D N s c k d colors settings urls) = Some (process_failure e))
   \<and> (\<forall>resp je e. json resp = Inl je \<and> is_JSONDecodeError je
        \<and> raised (parse_map_binary_body D resp) = Some e
        \<longrightarrow> raised (parse_map D resp) = Some (parse_failure e)
            \<and> exn_kind (parse_failure e) = ValueError
            \<and> exn_cause (parse_failure e) = Some e)"
  (is "?A \<and> ?B \<and> ?C \<and> ?D")
proof (intro conjI)
  show ?A
    by (auto simp: get_map_wraps_body process_failure_def)
  show ?B
    by (cases "get_map_body L D N s c k d colors settings urls")
       (auto simp: get_map_def try_except_def raised_def res_simps raise_def process_failure_def
          split: sum.splits prod.splits)
  show ?C
  proof (intro allI impI, elim conjE)
    fix l0 links ml l1 resp l2 header grid e
    assume p: "resolve_links N s c k d urls = (l0, Inr links)" "map_link_of links = Inr ml"
      "truthy ml"
    assume "download N ml 10 = (l1, Inl e)
           \<or> download N ml 10 = (l1, Inr resp) \<and> raised (parse_map D resp) = Some e
           \<or> download N ml 10 = (l1, Inr resp) \<and> parse_map D resp = (l2, Inr (header, grid))
              \<and> raised (render_layout L grid header colors) = Some e"
    then have "raised (fetch_and_render L D N s c k d colors urls) = Some e"
      using fetch_and_render_download [OF p] fetch_and_render_parse [OF p]
      by blast
    then show "raised (get_map L D N s c k d colors settings urls) = Some (process_failure e)"
      by (intro get_map_wraps_body get_map_body_raises_fetch)
  qed
  show ?D
    by (auto simp: parse_map_not_json parse_map_binary_wraps parse_failure_def)
qed

theorem get_map_failure_wrapped_witness:
  "raised (get_map sample_pil sample_decoders sample_cloud [] [] [] [] [] []
      (Some (links_of ''gone'' ''path''))) = Some (process_failure unreachable)
   \<and> exn_cause (process_failure unreachable) = Some unreachable"
proof -
  have p: "resolve_links sample_cloud [] [] [] [] (Some (links_of ''gone'' ''path''))
             = ([], Inr (links_of ''gone'' ''path''))
           \<and> map_link_of (links_of ''gone'' ''path'') = Inr (PStr ''gone'')
           \<and> truthy (PStr ''gone'')"
    by (simp add: sample_links)
  from get_map_failure_wrapped [where L = sample_pil and D = sample_decoders
      and N = sample_cloud and urls = "Some (links_of ''gone'' ''path'')" and s = "[]"
      and c = "[]" and k = "[]" and d = "[]" and colors = "[]" and settings = "[]"]
    p sample_download_fails
  have "raised (get_map sample_pil sample_decoders sample_cloud [] [] [] [] [] []
      (Some (links_of ''gone'' ''path''))) = Some (process_failure unreachable)"
    by blast
  then show ?thesis by (simp add: process_failure_def)
qed

section \<open>Recovered errors: the transform step and the path branch\<close>


lemma rotate_recognized_iff:
  "rotate_recognized r \<longleftrightarrow> r \<in> {PInt 90, PInt 180, PInt 270, PInt (- 90)}"
  by (cases r) (auto simp: rotate_recognized_def)

lemma flip_unfold:
  "flip L headers img settings =
     (case snd (flip_body L img settings) of
        None \<Rightarrow> []
      | Some e \<Rightarrow> [transformation_failed e],
      headers, fst (flip_body L img settings))"
  by (simp add: flip_def transformation_failed_def split: prod.splits option.splits)

lemma flip_body_steps:
  "flip_body L img settings =
     (case (if rotate_recognized (dict_get settings ''rotate'' (PInt 0))
            then rotate_img L img (dict_get settings ''rotate'' (PInt 0)) else Inr img) of
        Inl e \<Rightarrow> (img, Some e)
      | Inr img1 \<Rightarrow>
          (case (if truthy (dict_get settings ''flip_vertical'' (PBool False))
                 then transpose_img L img1 FLIP_LEFT_RIGHT else Inr img1) of
             Inl e \<Rightarrow> (img1, Some e)
           | Inr img2 \<Rightarrow>
               (case (if truthy (dict_get settings ''flip_horizontal'' (PBool False))
                      then transpose_img L img2 FLIP_TOP_BOTTOM else Inr img2) of
                  Inl e \<Rightarrow> (img2, Some e)
                | Inr img3 \<Rightarrow> (img3, None))))"
  by (simp add: flip_body_def Let_def and_then_def assign_def split: sum.splits)

lemma get_map_returns:
  assumes "fetch_and_render L D N s c k d colors urls = (l0, Inr (links, header, img0))"
    "path_stage L D N img0 header colors settings links = (l1, Inr img)"
  shows "get_map L D N s c k d colors settings urls =
           (l0 @ l1 @ fst (flip L header img settings),
            Inr (header, fst (flip_body L img settings)))"
  using assms
  by (simp add: get_map_def get_map_body_def res_simps try_except_def flip_unfold
        split: prod.splits)

text \<open>
  C5. With a library whose \<open>rotate\<close> and \<open>transpose\<close> return, \<open>flip\<close> rotates exactly when
  the setting \<open>rotate\<close> is 90, 180, 270 or -90 (any other value, and a missing one, leaves
  the image unrotated); the left-right transposition is applied to the result of that step
  when \<open>flip_vertical\<close> is true, and the top-bottom transposition to the result of that when
  \<open>flip_horizontal\<close> is true: rotation first, then the two flips, each behind its own flag.
\<close>

theorem flip_rotate_then_flips:
  assumes "\<forall>p a. rotate_img L p a = Inr (rot p a)"
    and "\<forall>p m. transpose_img L p m = Inr (tr p m)"
  shows "flip L headers img settings =
     ([], headers,
      (let r = dict_get settings ''rotate'' (PInt 0);
           rotated = (if r \<in> {PInt 90, PInt 180, PInt 270, PInt (- 90)} then rot img r else img);
           flipped = (if truthy (dict_get settings ''flip_vertical'' (PBool False))
                      then tr rotated FLIP_LEFT_RIGHT else rotated)
       in if truthy (dict_get settings ''flip_horizontal'' (PBool False))
          then tr flipped FLIP_TOP_BOTTOM else flipped))"
  using assms
  by (simp add: flip_unfold flip_body_steps rotate_recognized_iff Let_def)

theorem flip_rotate_then_flips_witness:
  "flip sample_pil [] (Picture (2, 1) [])
      [(''rotate'', PInt 90), (''flip_vertical'', PBool True), (''flip_horizontal'', PBool True)]
     = ([], [], Picture (2, 1)
          [Rotated (PInt 90), Transposed FLIP_LEFT_RIGHT, Transposed FLIP_TOP_BOTTOM])
   \<and> flip sample_pil [] (Picture (2, 1) [])
      [(''rotate'', PInt 45), (''flip_horizontal'', PBool True)]
     = ([], [], Picture (2, 1) [Transposed FLIP_TOP_BOTTOM])"
proof -
  have r: "\<forall>p a. rotate_img sample_pil p a = Inr (paint p (Rotated a))"
    and t: "\<forall>p m. transpose_img sample_pil p m = Inr (paint p (Transposed m))"
    by (simp_all add: sample_pil_def)
  show ?thesis
    by (simp add: flip_rotate_then_flips [OF r t] dict_get_def paint_def)
qed

text \<open>
  C10. After the rotation step, a true \<open>flip_vertical\<close> applies \<open>FLIP_LEFT_RIGHT\<close> and a true
  \<open>flip_horizontal\<close> applies \<open>FLIP_TOP_BOTTOM\<close>; with both, the second works on the result of
  the first, and with neither the image of the rotation step is returned.
\<close>

theorem flip_flag_methods:
  assumes "(if rotate_recognized (dict_get settings ''rotate'' (PInt 0))
            then rotate_img L img (dict_get settings ''rotate'' (PInt 0)) else Inr img) = Inr img1"
  shows "(truthy (dict_get settings ''flip_vertical'' (PBool False))
          \<and> \<not> truthy (dict_get settings ''flip_horizontal'' (PBool False))
          \<and> transpose_img L img1 FLIP_LEFT_RIGHT = Inr img2
          \<longrightarrow> flip L headers img settings = ([], headers, img2))
       \<and> (\<not> truthy (dict_get settings ''flip_vertical'' (PBool False))
          \<and> truthy (dict_get settings ''flip_horizontal'' (PBool False))
          \<and> transpose_img L img1 FLIP_TOP_BOTTOM = Inr img2
          \<longrightarrow> flip L headers img settings = ([], headers, img2))
       \<and> (truthy (dict_get settings ''flip_vertical'' (PBool False))
          \<and> truthy (dict_get settings ''flip_horizontal'' (PBool False))
          \<and> transpose_img L img1 FLIP_LEFT_RIGHT = Inr img2
          \<and> transpose_img L img2 FLIP_TOP_BOTTOM = Inr img3
          \<longrightarrow> flip L headers img settings = ([], headers, img3))
       \<and> (\<not> truthy (dict_get settings ''flip_vertical'' (PBool False))
          \<and> \<not> truthy (dict_get settings ''flip_horizontal'' (PBool False))
          \<longrightarrow> flip L headers img settings = ([], headers, img1))"
  using assms
  by (simp add: flip_unfold flip_body_steps)

theorem flip_flag_methods_witness:
  "flip sample_pil [] (Picture (2, 1) []) [(''flip_vertical'', PBool True)]
     = ([], [], Picture (2, 1) [Transposed FLIP_LEFT_RIGHT])
   \<and> flip sample_pil [] (Picture (2, 1) []) [(''flip_horizontal'', PBool True)]
     = ([], [], Picture (2, 1) [Transposed FLIP_TOP_BOTTOM])"
proof -
  let ?p = "Picture (2, 1) []"
  let ?v = "[(''flip_vertical'', PBool True)]" and ?h = "[(''flip_horizontal'', PBool True)]"
  have a: "(if rotate_recognized (dict_get ?v ''rotate'' (PInt 0))
            then rotate_img sample_pil ?p (dict_get ?v ''rotate'' (PInt 0)) else Inr ?p) = Inr ?p"
    and b: "(if rotate_recognized (dict_get ?h ''rotate'' (PInt 0))
            then rotate_img sample_pil ?p (dict_get ?h ''rotate'' (PInt 0)) else Inr ?p) = Inr ?p"
    by (simp_all add: dict_get_def rotate_recognized_def)
  have v: "truthy (dict_get ?v ''flip_vertical'' (PBool False))
          \<and> \<not> truthy (dict_get ?v ''flip_horizontal'' (PBool False))
          \<and> transpose_img sample_pil ?p FLIP_LEFT_RIGHT
              = Inr (Picture (2, 1) [Transposed FLIP_LEFT_RIGHT])"
    and h: "\<not> truthy (dict_get ?h ''flip_vertical'' (PBool False))
          \<and> truthy (dict_get ?h ''flip_horizontal'' (PBool False))
          \<and> transpose_img sample_pil ?p FLIP_TOP_BOTTOM
              = Inr (Picture (2, 1) [Transposed FLIP_TOP_BOTTOM])"
    by (simp_all add: dict_get_def sample_pil_def paint_def)
  from flip_flag_methods [OF a, where headers = "[]"] v
    flip_flag_methods [OF b, where headers = "[]"] h
  show ?thesis by blast
qed


text \<open>
  C6, as the code has it. A failure inside \<open>flip\<close> is caught and logged, \<open>flip\<close> returns, and
  a request that came this far returns the header and an image. The image is the one the
  completed operations produced: the untransformed image when the first operation applied
  fails, the rotated image when the left-right transposition fails after a rotation, and
  the image of the first two steps when the top-bottom transposition fails.
\<close>

theorem flip_failure_recovered:
  fixes L :: "('img, 'arr) imaging"
  shows
   "(\<forall>img' e. flip_body L img settings = (img', Some e)
       \<longrightarrow> flip L headers img settings = ([transformation_failed e], headers, img'))
    \<and> (\<forall>D N s c k d colors urls l0 links header img0 l1.
         fetch_and_render L D N s c k d colors urls = (l0, Inr (links, header, img0))
         \<and> path_stage L D N img0 header colors settings links = (l1, Inr img)
         \<longrightarrow> returned (get_map L D N s c k d colors settings urls)
               = Some (header, fst (flip_body L img settings)))
    \<and> (\<forall>e. (if rotate_recognized (dict_get settings ''rotate'' (PInt 0))
             then rotate_img L img (dict_get settings ''rotate'' (PInt 0)) else Inr img) = Inl e
         \<longrightarrow> flip_body L img settings = (img, Some e))
    \<and> (\<forall>img1 e.
         (if rotate_recognized (dict_get settings ''rotate'' (PInt 0))
          then rotate_img L img (dict_get settings ''rotate'' (PInt 0)) else Inr img) = Inr img1
         \<and> truthy (dict_get settings ''flip_vertical'' (PBool False))
         \<and> transpose_img L img1 FLIP_LEFT_RIGHT = Inl e
         \<longrightarrow> flip_body L img settings = (img1, Some e))
    \<and> (\<forall>img1 img2 e.
         (if rotate_recognized (dict_get settings ''rotate'' (PInt 0))
          then rotate_img L img (dict_get settings ''rotate'' (PInt 0)) else Inr img) = Inr img1
         \<and> (if truthy (dict_get settings ''flip_vertical'' (PBool False))
             then transpose_img L img1 FLIP_LEFT_RIGHT else Inr img1) = Inr img2
         \<and> truthy (dict_get settings ''flip_horizontal'' (PBool False))
         \<and> transpose_img L img2 FLIP_TOP_BOTTOM = Inl e
         \<longrightarrow> flip_body L img settings = (img2, Some e))"
  (is "?A \<and> ?B \<and> ?C \<and> ?D \<and> ?E")
proof (intro conjI)
  show ?A by (simp add: flip_unfold)
  show ?B by (auto simp: get_map_returns)
  show ?C by (simp add: flip_body_steps)
  show ?D by (simp add: flip_body_steps)
  show ?E by (simp add: flip_body_steps)
qed

lemma sample_fetch:
  "fetch_and_render failing_pil sample_decoders sample_cloud [] [] [] [] []
     (Some (links_of ''map0'' ''path''))
   = ([(DEBUG, [Text ''Map response status: '', Status 200]), fallback_line],
      Inr (links_of ''map0'' ''path'', binary_header 0, Picture (2, 1) []))"
  by code_simp

theorem flip_failure_recovered_witness:
  "flip failing_pil [] (Picture (2, 1) []) [(''rotate'', PInt 90), (''flip_vertical'', PBool True)]
     = ([transformation_failed out_of_memory], [], Picture (2, 1) [Rotated (PInt 90)])
   \<and> returned (get_map failing_pil sample_decoders sample_cloud [] [] [] [] []
         [(''rotate'', PInt 90), (''flip_vertical'', PBool True)]
         (Some (links_of ''map0'' ''path'')))
       = Some (binary_header 0, Picture (2, 1) [Rotated (PInt 90)])"
proof -
  let ?s = "[(''rotate'', PInt 90), (''flip_vertical'', PBool True)]"
  let ?p = "Picture (2, 1) []" and ?q = "Picture (2, 1) [Rotated (PInt 90)]"
  note t = flip_failure_recovered [where L = failing_pil and img = ?p and settings = ?s
      and headers = "[]"]
  have h: "(if rotate_recognized (dict_get ?s ''rotate'' (PInt 0))
          then rotate_img failing_pil ?p (dict_get ?s ''rotate'' (PInt 0)) else Inr ?p) = Inr ?q
         \<and> truthy (dict_get ?s ''flip_vertical'' (PBool False))
         \<and> transpose_img failing_pil ?q FLIP_LEFT_RIGHT = Inl out_of_memory"
    by (simp add: dict_get_def rotate_recognized_def failing_pil_def sample_pil_def paint_def)
  note tA = t [THEN conjunct1, rule_format]
    and tB = t [THEN conjunct2, THEN conjunct1, rule_format]
    and tD = t [THEN conjunct2, THEN conjunct2, THEN conjunct2, THEN conjunct1, rule_format]
  from tD [OF h] have b: "flip_body failing_pil ?p ?s = (?q, Some out_of_memory)" .
  from tA [OF b] have a: "flip failing_pil [] ?p ?s = ([transformation_failed out_of_memory], [], ?q)" .
  have ps: "path_stage failing_pil sample_decoders sample_cloud ?p (binary_header 0) [] ?s
          (links_of ''map0'' ''path'') = ([], Inr ?p)"
    by (simp add: path_stage_def dict_get_def ret_def)
  from tB [OF conjI [OF sample_fetch ps]]
  have "returned (get_map failing_pil sample_decoders sample_cloud [] [] [] [] [] ?s
         (Some (links_of ''map0'' ''path'')))
       = Some (binary_header 0, fst (flip_body failing_pil ?p ?s))" .
  with a b show ?thesis by simp
qed

text \<open>
  C6 as stated fails: with a rotation by 90 and a transposition that raises, the request
  returns the rotated image, not the image as it was before the transform step.
\<close>

theorem flip_partial_counterexample:
  "map_option snd (returned (get_map failing_pil sample_decoders sample_cloud [] [] [] [] []
         [(''rotate'', PInt 90), (''flip_vertical'', PBool True)]
         (Some (links_of ''map0'' ''path''))))
     = Some (Picture (2, 1) [Rotated (PInt 90)])
   \<and> returned (render_layout failing_pil [0, 1] (binary_header 0) []) = Some (Picture (2, 1) [])
   \<and> map_option snd (returned (get_map failing_pil sample_decoders sample_cloud [] [] [] [] []
         [(''rotate'', PInt 90), (''flip_vertical'', PBool True)]
         (Some (links_of ''map0'' ''path''))))
     \<noteq> returned (render_layout failing_pil [0, 1] (binary_header 0) [])"
  by code_simp

lemma path_stage_enabled:
  assumes "truthy (dict_get settings ''path_enabled'' (PBool False))"
    "path_link_of links = Inr pl" "truthy pl"
  shows "path_stage L D N img header colors settings links =
           (fst (path_branch L D N img header colors pl),
            Inr (snd (path_branch L D N img header colors pl)))"
  using assms by (simp add: path_stage_def res_simps split: prod.splits)

lemma path_branch_unfold:
  "path_branch L D N img header colors pl =
     (fst (path_try L D N img header colors pl)
        @ (case snd (snd (path_try L D N img header colors pl)) of
             None \<Rightarrow> [] | Some e \<Rightarrow> [path_rendering_failed e]),
      fst (snd (path_try L D N img header colors pl)))"
  by (simp add: path_branch_def path_rendering_failed_def split: prod.splits option.splits)

lemma parse_path_binary_fails:
  assumes "json resp = Inl je" "is_JSONDecodeError je"
    "decode_path_v1 D (hex (content resp)) = Inl e"
  shows "parse_path D resp scale header = ([path_parsing_failed e], Inr [])"
  using assms
  by (simp add: parse_path_def parse_path_data_def res_simps try_except_def lift_def ret_def
        path_parsing_failed_def bind_res_def logmsg_def)

text \<open>
  C3, as the code has it. When the path branch is entered, the request returns whatever
  happens in the branch; an exception that ends the branch is logged (``Path rendering
  failed''). The image that goes on to the transform step is the unscaled, path-free map
  image when the path fetch, the scale computation or the resize fails; it is the upscaled
  image when decoding the path raises, or when a binary path payload fails to decode
  (logged as ``Path parsing failed'' by \<open>parse_path\<close>, which returns an empty path); and it
  is the upscaled image as the drawing calls left it when compositing fails.
\<close>

theorem path_failure_recovered:
  fixes L :: "('img, 'arr) imaging"
  assumes "fetch_and_render L D N s c k d colors urls = (l0, Inr (links, header, img))"
    and "truthy (dict_get settings ''path_enabled'' (PBool False))"
    and "path_link_of links = Inr pl" and "truthy pl"
  shows
   "returned (get_map L D N s c k d colors settings urls)
      = Some (header, fst (flip_body L (snd (path_branch L D N img header colors pl)) settings))
    \<and> (\<forall>l img' e. path_try L D N img header colors pl = (l, img', Some e)
         \<longrightarrow> path_rendering_failed e \<in> set (logged (get_map L D N s c k d colors settings urls))
             \<and> snd (path_branch L D N img header colors pl) = img')
    \<and> (\<forall>l e. download N pl 10 = (l, Inl e)
         \<longrightarrow> path_try L D N img header colors pl = (l, img, Some e))
    \<and> (\<forall>l resp scale e. download N pl 10 = (l, Inr resp)
         \<and> (scale_for (fst (size_of L img)) = Inl e
            \<or> scale_for (fst (size_of L img)) = Inr scale
              \<and> resize_box L img (fst (size_of L img) * scale, snd (size_of L img) * scale)
                  = Inl e)
         \<longrightarrow> path_try L D N img header colors pl = (l, img, Some e))
    \<and> (\<forall>l resp scale img2. download N pl 10 = (l, Inr resp)
         \<and> scale_for (fst (size_of L img)) = Inr scale
         \<and> resize_box L img (fst (size_of L img) * scale, snd (size_of L img) * scale)
             = Inr img2
         \<longrightarrow> (\<forall>l2 e. parse_path D resp (int scale) header = (l2, Inl e)
                \<longrightarrow> path_try L D N img header colors pl = (l @ l2, img2, Some e))
             \<and> (\<forall>je e. json resp = Inl je \<and> is_JSONDecodeError je
                  \<and> decode_path_v1 D (hex (content resp)) = Inl e
                \<longrightarrow> path_branch L D N img header colors pl
                      = (l @ [path_parsing_failed e], img2))
             \<and> (\<forall>l2 path img3 e. parse_path D resp (int scale) header = (l2, Inr path)
                  \<and> draw_path L D img2 path (int scale) header colors = (img3, Some e)
                \<longrightarrow> path_try L D N img header colors pl = (l @ l2, img3, Some e)))"
  (is "?A \<and> ?B \<and> ?C \<and> ?D \<and> ?E")
proof (intro conjI)
  note g = get_map_returns [OF assms(1) path_stage_enabled [OF assms(2,3,4)]]
  show ?A by (simp add: g)
  show ?B
    by (auto simp: g logged_def path_branch_unfold)
  show ?C by (simp add: path_try_def)
  show ?D by (auto simp: path_try_def)
  show ?E
    by (auto simp: path_try_def path_branch_def parse_path_binary_fails draw_path_def)
qed

text \<open>
  C3 as stated fails: a path payload whose decoding raises leaves the upscaled image
  (1080 by 540 for a map of 2 by 1), not the unscaled one.
\<close>

theorem path_failure_scaled_counterexample:
  "map_option snd (returned (get_map sample_pil sample_decoders sample_cloud [] [] [] [] []
       path_on (Some (links_of ''map0'' ''badpath''))))
     = Some (Picture (1080, 540) [Resized (1080, 540)])
   \<and> returned (render_layout sample_pil [0, 1] (binary_header 0) []) = Some (Picture (2, 1) [])
   \<and> path_rendering_failed (Exn KeyError [Val (PStr ''path'')] None)
       \<in> set (logged (get_map sample_pil sample_decoders sample_cloud [] [] [] [] []
             path_on (Some (links_of ''map0'' ''badpath''))))
   \<and> map_option snd (returned (get_map sample_pil sample_decoders sample_cloud [] [] [] [] []
       path_on (Some (links_of ''map0'' ''badpath''))))
     \<noteq> returned (render_layout sample_pil [0, 1] (binary_header 0) [])"
  by code_simp

lemma sample_fetch_gone:
  "fetch_and_render sample_pil sample_decoders sample_cloud [] [] [] [] []
     (Some (links_of ''map0'' ''gone''))
   = ([(DEBUG, [Text ''Map response status: '', Status 200]), fallback_line],
      Inr (links_of ''map0'' ''gone'', binary_header 0, Picture (2, 1) []))"
  by code_simp

theorem path_failure_recovered_witness:
  "returned (get_map sample_pil sample_decoders sample_cloud [] [] [] [] [] path_on
      (Some (links_of ''map0'' ''gone''))) = Some (binary_header 0, Picture (2, 1) [])
   \<and> path_rendering_failed unreachable
       \<in> set (logged (get_map sample_pil sample_decoders sample_cloud [] [] [] [] [] path_on
             (Some (links_of ''map0'' ''gone''))))"
proof -
  let ?p = "Picture (2, 1) []"
  have e: "truthy (dict_get path_on ''path_enabled'' (PBool False))"
    by (simp add: path_on_def dict_get_def)
  have pl: "path_link_of (links_of ''map0'' ''gone'') = Inr (PStr ''gone'')"
    by (simp add: path_link_of_def links_of_def)
  have tr: "truthy (PStr ''gone'')" by simp
  note t = path_failure_recovered [OF sample_fetch_gone e pl tr]
  note tA = t [THEN conjunct1]
    and tB = t [THEN conjunct2, THEN conjunct1, rule_format]
    and tC = t [THEN conjunct2, THEN conjunct2, THEN conjunct1, rule_format]
  note b = tB [OF tC [OF sample_download_fails]]
  have f: "flip_body sample_pil ?p path_on = (?p, None)"
    by (simp add: flip_body_def path_on_def dict_get_def and_then_def rotate_recognized_def)
  from tA b f show ?thesis by simp
qed

section \<open>The path branch: scale, dock marker and links\<close>


lemma dock_box_geometry:
  "box_centre (dock_box p scale) = (fst p * scale, snd p * scale)"
  "box_radius (dock_box p scale) = (10, 10)"
  by (simp_all add: box_centre_def box_radius_def dock_box_def Let_def)

text \<open>
  C7, as the code has it. When the decoded path is not empty and its line has been drawn,
  a header with \<open>pileX\<close> and \<open>pileY\<close> gets the dock marker: the dock position goes through
  \<open>_format_path_point\<close> for the versions \<open>[0]\<close> and \<open>[1]\<close> and through \<open>map_to_image\<close> (with the
  header's resolution and origin) otherwise, is multiplied by the scale, and an ellipse is
  drawn in the box of radius 10 around it, filled green with a white outline. The centre
  is linear in the scale: twice the scale gives twice the offset from the origin.
\<close>

theorem dock_marker_drawn:
  fixes L :: "('img, 'arr) imaging"
  assumes "path \<noteq> []" and "Draw L img = None"
    and "py_tuple (dict_get colors ''path_color'' (PList [PInt 0, PInt 255, PInt 0])) = Inr fill"
    and "line L img path fill 2 = (img2, None)"
    and "map_of header ''pileX'' = Some x" and "map_of header ''pileY'' = Some y"
    and "map_of header ''version'' = Some version"
  shows
   "(eq_int_singleton version 0 \<or> eq_int_singleton version 1
       \<longrightarrow> dock_point D header = format_path_point D [(''x'', x), (''y'', y)] False)
    \<and> (\<forall>resolution x_min y_min.
         \<not> eq_int_singleton version 0 \<and> \<not> eq_int_singleton version 1
         \<and> map_of header ''mapResolution'' = Some resolution
         \<and> map_of header ''x_min'' = Some x_min \<and> map_of header ''y_min'' = Some y_min
         \<longrightarrow> dock_point D header = map_to_image D [x, y] resolution x_min y_min)
    \<and> (\<forall>p. dock_point D header = Inr p
         \<longrightarrow> draw_path L D img path scale header colors
               = ellipse L img2 (dock_box p scale)
                   [PInt 255, PInt 255, PInt 255] [PInt 0, PInt 255, PInt 0] 2
           \<and> box_centre (dock_box p scale) = (fst p * scale, snd p * scale)
           \<and> box_radius (dock_box p scale) = (10, 10)
           \<and> box_centre (dock_box p (2 * scale))
               = (2 * fst (box_centre (dock_box p scale)),
                  2 * snd (box_centre (dock_box p scale))))"
  using assms
  by (auto simp: dock_point_def bind_exn_def dict_getitem_def draw_path_def draw_dock_def
        and_then_def dock_box_geometry)

lemma sample_dock:
  "dock_point sample_decoders (binary_header 0) = Inr (3, 4)"
  by code_simp

theorem dock_marker_drawn_witness:
  "draw_path sample_pil sample_decoders (Picture (4, 2) []) [1, 2, 3, 4] 2 (binary_header 0) []
     = (Picture (4, 2)
          [LineDrawn [1, 2, 3, 4] [PInt 0, PInt 255, PInt 0] 2,
           EllipseDrawn ((- 4, - 2), (16, 18))
             [PInt 255, PInt 255, PInt 255] [PInt 0, PInt 255, PInt 0] 2], None)
   \<and> box_centre (dock_box (3, 4) 2) = (6, 8)
   \<and> box_centre (dock_box (3, 4) 4) = (12, 16)"
proof -
  let ?p = "Picture (4, 2) []"
  let ?fill = "[PInt 0, PInt 255, PInt 0]"
  have a: "[1, 2, 3, 4] \<noteq> ([] :: int list)" by simp
  have b: "Draw sample_pil ?p = None" by (simp add: sample_pil_def)
  have c: "py_tuple (dict_get [] ''path_color'' (PList [PInt 0, PInt 255, PInt 0])) = Inr ?fill"
    by (simp add: dict_get_def)
  have d: "line sample_pil ?p [1, 2, 3, 4] ?fill 2
             = (Picture (4, 2) [LineDrawn [1, 2, 3, 4] ?fill 2], None)"
    by (simp add: sample_pil_def paint_def)
  have x: "map_of (binary_header 0) ''pileX'' = Some (PInt 3)"
    and y: "map_of (binary_header 0) ''pileY'' = Some (PInt 4)"
    and v: "map_of (binary_header 0) ''version'' = Some (PList [PInt 0])"
    by (simp_all add: binary_header_def)
  note t = dock_marker_drawn [OF a b c d x y v, where D = sample_decoders]
  note t3 = t [THEN conjunct2, THEN conjunct2, rule_format, OF sample_dock]
  have e: "ellipse sample_pil (Picture (4, 2) [LineDrawn [1, 2, 3, 4] ?fill 2])
             (dock_box (3, 4) 2) [PInt 255, PInt 255, PInt 255] ?fill 2
           = (Picture (4, 2)
          [LineDrawn [1, 2, 3, 4] ?fill 2,
           EllipseDrawn ((- 4, - 2), (16, 18)) [PInt 255, PInt 255, PInt 255] ?fill 2], None)"
    by (simp add: sample_pil_def paint_def dock_box_def)
  from t3 [of 2] e show ?thesis by simp
qed

text \<open>
  C7 as stated fails: a header with dock coordinates and a path payload that decodes to an
  empty path give an upscaled image with no marker; the marker is drawn only inside the
  branch that draws a non-empty path.
\<close>

theorem dock_marker_missing_counterexample:
  "map_of (binary_header 0) ''pileX'' \<noteq> None \<and> map_of (binary_header 0) ''pileY'' \<noteq> None
   \<and> returned (get_map sample_pil sample_decoders sample_cloud [] [] [] [] [] path_on
       (Some (links_of ''map0'' ''nopath'')))
     = Some (binary_header 0, Picture (1080, 540) [Resized (1080, 540)])
   \<and> \<not> list_ex is_ellipse (history (Picture (1080, 540) [Resized (1080, 540)]))"
  by code_simp

lemma floor_scale: "0 < w \<Longrightarrow> nat \<lfloor>1080 / real w\<rfloor> = 1080 div w"
  using floor_divide_of_nat_eq [of 1080 w, where ?'a = real] by simp

lemma parse_path_scaled:
  "parse_path_data D resp header = (l, Inr (Some path_data)) \<Longrightarrow>
   parse_path D resp scale header = (l, Inr (map (\<lambda>i. i * scale) (concat path_data)))"
  by (simp add: parse_path_def res_simps ret_def map_concat)

text \<open>
  C8. In the path branch, for an image of width \<open>w > 0\<close> and height \<open>h\<close>, the scale is the
  floor of \<open>1080 / w\<close>; the image is resized (box resampling) to \<open>w * scale\<close> by
  \<open>h * scale\<close>; every coordinate of the decoded path is multiplied by that scale, and the
  scaled coordinates are the ones handed to the drawing of the path on the resized image.
\<close>

theorem path_scale:
  fixes L :: "('img, 'arr) imaging"
  assumes "download N pl 10 = (l1, Inr resp)" and "size_of L img = (w, h)" and "0 < w"
  shows
   "scale_for w = Inr (nat \<lfloor>1080 / real w\<rfloor>)
    \<and> (\<forall>e. resize_box L img (w * nat \<lfloor>1080 / real w\<rfloor>, h * nat \<lfloor>1080 / real w\<rfloor>) = Inl e
         \<longrightarrow> path_try L D N img header colors pl = (l1, img, Some e))
    \<and> (\<forall>img2 l2 path_data.
         resize_box L img (w * nat \<lfloor>1080 / real w\<rfloor>, h * nat \<lfloor>1080 / real w\<rfloor>) = Inr img2
         \<and> parse_path_data D resp header = (l2, Inr (Some path_data))
         \<longrightarrow> parse_path D resp (int (nat \<lfloor>1080 / real w\<rfloor>)) header
               = (l2, Inr (map (\<lambda>i. i * int (nat \<lfloor>1080 / real w\<rfloor>)) (concat path_data)))
           \<and> path_try L D N img header colors pl
               = (l1 @ l2,
                  draw_path L D img2
                    (map (\<lambda>i. i * int (nat \<lfloor>1080 / real w\<rfloor>)) (concat path_data))
                    (int (nat \<lfloor>1080 / real w\<rfloor>)) header colors))
    \<and> (\<forall>img2 path scale fill.
         path \<noteq> [] \<and> Draw L img2 = None
         \<and> py_tuple (dict_get colors ''path_color'' (PList [PInt 0, PInt 255, PInt 0])) = Inr fill
         \<and> map_of header ''pileX'' = None
         \<longrightarrow> draw_path L D img2 path scale header colors = line L img2 path fill 2)"
  (is "?A \<and> ?B \<and> ?C \<and> ?D")
proof (intro conjI)
  have s: "scale_for w = Inr (1080 div w)" using assms(3) by (simp add: scale_for_def)
  show ?A using s floor_scale [OF assms(3)] by simp
  show ?B using assms s floor_scale [OF assms(3)] by (simp add: path_try_def)
  show ?C using assms s floor_scale [OF assms(3)]
    by (auto simp: path_try_def parse_path_scaled split: prod.splits)
  show ?D
    by (auto simp: draw_path_def and_then_def split: prod.splits option.splits)
qed

text \<open>
  C9 fails on the code. The map URL is the first entry that carries \<open>map_url\<close>, but the path
  URL is searched in \<open>links[1:]\<close>, not after the map entry: when the first entry does not
  carry the key, both URLs come from the same entry. Here the list has a single entry with
  the key, and it is chosen for the map and for the path.
\<close>

theorem path_link_same_entry:
  "map_link_of [PDict [(''name'', PStr ''n'')], PDict [(''map_url'', PStr ''u'')]]
     = Inr (PStr ''u'')
   \<and> path_link_of [PDict [(''name'', PStr ''n'')], PDict [(''map_url'', PStr ''u'')]]
     = Inr (PStr ''u'')
   \<and> length (filter carries_map_url
        [PDict [(''name'', PStr ''n'')], PDict [(''map_url'', PStr ''u'')]]) = 1"
  by (simp add: map_link_of_def path_link_of_def carries_map_url_def)

lemma sample_parse_path_data:
  "parse_path_data sample_decoders (json_response sample_path) [] = ([], Inr (Some [[1, 2], [3, 4]]))"
  by code_simp

theorem path_scale_witness:
  "scale_for 2 = Inr 540
   \<and> parse_path sample_decoders (json_response sample_path) 540 []
       = ([], Inr [540, 1080, 1620, 2160])
   \<and> path_try sample_pil sample_decoders sample_cloud (Picture (2, 1) []) [] [] (PStr ''path'')
       = ([], Picture (1080, 540)
                [Resized (1080, 540),
                 LineDrawn [540, 1080, 1620, 2160] [PInt 0, PInt 255, PInt 0] 2], None)"
proof -
  let ?p = "Picture (2, 1) []" and ?q = "Picture (1080, 540) [Resized (1080, 540)]"
  let ?fill = "[PInt 0, PInt 255, PInt 0]"
  have f: "nat \<lfloor>1080 / real 2\<rfloor> = 540" by simp
  have sz: "size_of sample_pil ?p = (2, 1)" by (simp add: sample_pil_def)
  have w: "0 < (2 :: nat)" by simp
  note t = path_scale [OF sample_download(3) sz w, where D = sample_decoders and header = "[]"
      and colors = "[]", unfolded f]
  note tA = t [THEN conjunct1]
    and tC = t [THEN conjunct2, THEN conjunct2, THEN conjunct1, rule_format]
    and tD = t [THEN conjunct2, THEN conjunct2, THEN conjunct2, rule_format]
  have rs: "resize_box sample_pil ?p (2 * 540, 1 * 540) = Inr ?q"
    by (simp add: sample_pil_def)
  note c = tC [OF conjI [OF rs sample_parse_path_data]]
  have d: "draw_path sample_pil sample_decoders ?q [540, 1080, 1620, 2160] 540 [] []
           = line sample_pil ?q [540, 1080, 1620, 2160] ?fill 2"
    by (rule tD) (simp add: sample_pil_def dict_get_def)
  have l: "line sample_pil ?q [540, 1080, 1620, 2160] ?fill 2
           = (Picture (1080, 540) [Resized (1080, 540), LineDrawn [540, 1080, 1620, 2160] ?fill 2],
              None)"
    by (simp add: sample_pil_def paint_def)
  from tA c d l show ?thesis by simp
qed

end
